theory Spec2Isabelle
  imports Main "HOL-Library.Sublist"
begin

section \<open>Values exchanged with the model and the JSON library\<close>

text \<open>
  A Python \<open>str\<close> is modelled as a list of characters with code points below 256;
  \<open>bytes\<close> are lists of the same 8-bit characters. A binary64 float is carried as
  sign, significand and exponent (or as one of the non-finite values); no arithmetic on
  floats is modelled, only the truth value Python gives it and its equality with other
  numbers as a dictionary key.
\<close>

type_synonym bytes = string

datatype pyfloat = Finite bool nat int | Infinite bool | NaN

text \<open>
  The values \<open>json.loads\<close> produces. \<open>JNull\<close> is also Python's \<open>None\<close>. A Python
  \<open>dict\<close> is an association list in insertion order.
\<close>

datatype json =
    JNull
  | JBool bool
  | JInt int
  | JFloat pyfloat
  | JString string
  | JArray "json list"
  | JObject "(string \<times> json) list"

type_synonym dict = "(string \<times> json) list"

text \<open>Exceptions, each with the text \<open>str(e)\<close> gives.\<close>

datatype exn =
    TypeError string
  | AttributeError string
  | IndexError string
  | ValueError string
  | RecursionError string
  | ModelError string

fun str_exn :: "exn \<Rightarrow> string" where
  "str_exn (TypeError m) = m"
| "str_exn (AttributeError m) = m"
| "str_exn (IndexError m) = m"
| "str_exn (ValueError m) = m"
| "str_exn (RecursionError m) = m"
| "str_exn (ModelError m) = m"

subsection \<open>Dictionaries\<close>

text \<open>\<open>d.get(k)\<close>: the value stored under \<open>k\<close>, if any.\<close>

definition dict_get :: "dict \<Rightarrow> string \<Rightarrow> json option" where
  "dict_get d k = map_of d k"

text \<open>\<open>d[k] = v\<close>: an existing key keeps its position, a new key goes last.\<close>

fun dict_set :: "(string \<times> 'v) list \<Rightarrow> string \<Rightarrow> 'v \<Rightarrow> (string \<times> 'v) list" where
  "dict_set [] k v = [(k, v)]"
| "dict_set ((k', v') # d) k v =
     (if k' = k then (k, v) # d else (k', v') # dict_set d k v)"

text \<open>\<open>d.get(k, default)\<close> and \<open>d.get(k)\<close> with the default \<open>None\<close>.\<close>

definition get_default :: "dict \<Rightarrow> string \<Rightarrow> json \<Rightarrow> json" where
  "get_default d k dflt = (case dict_get d k of None \<Rightarrow> dflt | Some v \<Rightarrow> v)"

definition get_none :: "dict \<Rightarrow> string \<Rightarrow> json" where
  "get_none d k = get_default d k JNull"

text \<open>The name Python prints for the type of a value.\<close>

fun type_name :: "json \<Rightarrow> string" where
  "type_name JNull = ''NoneType''"
| "type_name (JBool b) = ''bool''"
| "type_name (JInt i) = ''int''"
| "type_name (JFloat f) = ''float''"
| "type_name (JString s) = ''str''"
| "type_name (JArray xs) = ''list''"
| "type_name (JObject d) = ''dict''"

text \<open>
  \<open>result[k] = v\<close> on whatever \<open>json.loads\<close> returned: only a dict accepts it.
\<close>

fun setitem :: "json \<Rightarrow> string \<Rightarrow> json \<Rightarrow> exn + dict" where
  "setitem (JObject d) k v = Inr (dict_set d k v)"
| "setitem (JArray xs) k v =
     Inl (TypeError ''list indices must be integers or slices, not str'')"
| "setitem x k v =
     Inl (TypeError ([CHR 0x27] @ type_name x @ [CHR 0x27] @
       '' object does not support item assignment''))"

text \<open>\<open>x.get(k, default)\<close> on an arbitrary value: only a dict has \<open>get\<close>.\<close>

fun getattr_get :: "json \<Rightarrow> string \<Rightarrow> json \<Rightarrow> exn + json" where
  "getattr_get (JObject d) k dflt = Inr (get_default d k dflt)"
| "getattr_get x k dflt =
     Inl (AttributeError ([CHR 0x27] @ type_name x @ [CHR 0x27] @
       '' object has no attribute '' @ [CHR 0x27] @ ''get'' @ [CHR 0x27]))"

text \<open>Python's truth value of a decoded value.\<close>

fun truthy :: "json \<Rightarrow> bool" where
  "truthy JNull = False"
| "truthy (JBool b) = b"
| "truthy (JInt i) = (i \<noteq> 0)"
| "truthy (JFloat (Finite s m e)) = (m \<noteq> 0)"
| "truthy (JFloat f) = True"
| "truthy (JString s) = (s \<noteq> [])"
| "truthy (JArray xs) = (xs \<noteq> [])"
| "truthy (JObject d) = (d \<noteq> [])"

subsection \<open>Strings\<close>

text \<open>\<open>str.isspace\<close> on the code points below 256.\<close>

definition is_space :: "char \<Rightarrow> bool" where
  "is_space c =
     (let n = (of_char c :: nat)
      in (9 \<le> n \<and> n \<le> 13) \<or> (28 \<le> n \<and> n \<le> 32) \<or> n = 133 \<or> n = 160)"

definition strip :: "string \<Rightarrow> string" where
  "strip s = rev (dropWhile is_space (rev (dropWhile is_space s)))"

text \<open>\<open>str.lower\<close> on the code points below 256: A-Z and the Latin-1 capitals.\<close>

definition lower_char :: "char \<Rightarrow> char" where
  "lower_char c =
     (let n = (of_char c :: nat)
      in if (65 \<le> n \<and> n \<le> 90) \<or> (192 \<le> n \<and> n \<le> 222 \<and> n \<noteq> 215)
         then char_of (n + 32) else c)"

definition lower :: "string \<Rightarrow> string" where
  "lower s = map lower_char s"

text \<open>\<open>sub in s\<close> is \<^const>\<open>sublist\<close>; \<open>s.startswith(p)\<close> is \<^const>\<open>prefix\<close>.\<close>

definition fence :: string where
  "fence = [CHR 0x60, CHR 0x60, CHR 0x60]"

text \<open>
  \<open>s.split(fence)\<close>: the pieces between successive, non-overlapping occurrences of the
  three backticks, scanned from the left.
\<close>

fun split_fence :: "string \<Rightarrow> string list" where
  "split_fence (a # b # c # s) =
     (if a = CHR 0x60 \<and> b = CHR 0x60 \<and> c = CHR 0x60 then [] # split_fence s
      else (case split_fence (b # c # s) of
              [] \<Rightarrow> [[a]]
            | seg # segs \<Rightarrow> (a # seg) # segs))"
| "split_fence s = [s]"

text \<open>\<open>xs[1]\<close>, with the IndexError Python raises when there is no such element.\<close>

definition index1 :: "string list \<Rightarrow> exn + string" where
  "index1 xs =
     (case xs of
        _ # x # _ \<Rightarrow> Inr x
      | _ \<Rightarrow> Inl (IndexError ''list index out of range''))"

text \<open>
  The clean-up every extraction performs before \<open>json.loads\<close>:
  \<^verbatim>\<open>
  clean_text = raw_text.strip()
  if clean_text.startswith(fence):
      clean_text = clean_text.split(fence)[1]
      if clean_text.startswith("json"):
          clean_text = clean_text[4:]
  clean_text = clean_text.strip()
  \<close>
\<close>

definition clean_text :: "string \<Rightarrow> exn + string" where
  "clean_text raw_text =
     (let t = strip raw_text
      in if prefix fence t
         then (case index1 (split_fence t) of
                 Inl e \<Rightarrow> Inl e
               | Inr body \<Rightarrow>
                   Inr (strip (if prefix ''json'' body then drop 4 body else body)))
         else Inr (strip t))"

subsection \<open>The heuristic classification\<close>

definition damage_words :: "string list" where
  "damage_words =
     [''damage'', ''crack'', ''hole'', ''dent'', ''scratch'', ''stain'',
      ''peel'', ''mold'', ''water'', ''broken'', ''chip'', ''wear'']"

definition has_damage :: "string \<Rightarrow> bool" where
  "has_damage raw_text =
     (list_ex (\<lambda>word. sublist word (lower raw_text)) damage_words
      \<and> \<not> sublist ''no damage'' (lower raw_text))"

definition heuristic_result :: "string \<Rightarrow> dict" where
  "heuristic_result raw_text =
     [(''status'', JString (if has_damage raw_text then ''damage_found'' else ''no_damage'')),
      (''damage_found'', JBool (has_damage raw_text)),
      (''message'', JString raw_text),
      (''raw_analysis'', JString raw_text)]"

section \<open>The external collaborators\<close>

text \<open>
  A prompt is a pure template filled from the arguments of the operation that sends it, so
  a request to the model is identified by the operation and those arguments (attachments
  included). The decoded values of the two streaming requests are the description text
  and the image with its media type.
\<close>

datatype request =
    AnalyzeDamagePrompt bytes "bytes list" "string list option"
  | StandaloneDamagePrompt bytes
  | RepairQuotePrompt "dict list" string string "pyfloat option"
  | LeaseInfoPrompt bytes string
  | IdentifyFloorPlanPrompt bytes string
  | DeductionsPrompt "dict list" pyfloat string "dict option"
  | DescribeFloorPlanPrompt bytes string
  | ParseFloorPlanPrompt bytes string
  | Render3DFromDescription json
  | Render3DFromImage bytes string

text \<open>
  A single-shot invocation either raises or returns a response whose \<open>text\<close> is a
  string or \<open>None\<close>.
\<close>

datatype reply = Raises exn | Reply "string option"

text \<open>
  A streamed chunk: \<open>chunk.candidates\<close> is a list of candidates, a candidate's
  \<open>content\<close> is absent or holds its list of parts (an absent \<open>parts\<close> is the empty
  list: both are false in the source's test), and a part carries inline data, text, both
  or neither.
\<close>

record blob =
  blob_data :: bytes
  blob_mime_type :: "string option"

record part =
  part_inline_data :: "blob option"
  part_text :: "string option"

type_synonym candidate = "part list option"

type_synonym chunk = "candidate list"

text \<open>
  A stream delivers finitely many chunks and then either ends or raises.
\<close>

type_synonym stream = "chunk list \<times> exn option"

text \<open>
  What \<open>json.loads\<close> does with a text: it returns the decoded value, raises
  \<open>json.JSONDecodeError\<close>, or raises another exception (a \<open>ValueError\<close> for an
  integer literal beyond the digit limit, a \<open>RecursionError\<close> for nesting that is too
  deep).
\<close>

datatype loaded = Loaded json | JSONDecodeError | LoadsRaised exn

text \<open>
  What the operations take from outside: the JSON decoder, the model's two entry points,
  and the value of
  \<open>os.environ.get("GOOGLE_API_KEY") or os.environ.get("GEMINI_API_KEY")\<close>.
  Building the client object is taken to succeed.
\<close>

record env =
  json_loads :: "string \<Rightarrow> loaded"
  generate_content :: "request \<Rightarrow> reply"
  generate_content_stream :: "request \<Rightarrow> stream"
  api_key :: "string option"

text \<open>
  An operation returns the requests it sent to the model, in order, with its result.
\<close>

type_synonym 'a run = "request list \<times> 'a"

text \<open>
  The outcome of the \<open>try\<close> body that cleans and decodes a reply: \<open>DecodeError\<close> is
  the \<open>json.JSONDecodeError\<close> the handlers name, \<open>Raised\<close> any other exception.
\<close>

datatype parsed = Raised exn | DecodeError | Decoded json

definition parse_reply :: "env \<Rightarrow> string \<Rightarrow> parsed" where
  "parse_reply e raw_text =
     (case clean_text raw_text of
        Inl x \<Rightarrow> Raised x
      | Inr c \<Rightarrow>
          (case json_loads e c of
             Loaded v \<Rightarrow> Decoded v
           | JSONDecodeError \<Rightarrow> DecodeError
           | LoadsRaised x \<Rightarrow> Raised x))"

definition none_strip :: exn where
  "none_strip =
     AttributeError
       ([CHR 0x27] @ ''NoneType'' @ [CHR 0x27] @ '' object has no attribute '' @
        [CHR 0x27] @ ''strip'' @ [CHR 0x27])"

section \<open>Damage analysis and repair quotes (damage_analyzer.py)\<close>

text \<open>
  What \<open>analyze_damage\<close> and \<open>analyze_damage_standalone\<close> do with the response:
  the decoded record gets the raw text under \<open>raw_analysis\<close>; a reply that does not
  decode gets the heuristic classification. Only \<open>json.JSONDecodeError\<close> is caught.
\<close>

definition damage_result :: "env \<Rightarrow> reply \<Rightarrow> exn + dict" where
  "damage_result e r =
     (case r of
        Raises x \<Rightarrow> Inl x
      | Reply None \<Rightarrow> Inl none_strip
      | Reply (Some raw_text) \<Rightarrow>
          (case parse_reply e raw_text of
             Raised x \<Rightarrow> Inl x
           | DecodeError \<Rightarrow> Inr (heuristic_result raw_text)
           | Decoded result \<Rightarrow> setitem result ''raw_analysis'' (JString raw_text)))"

definition analyze_damage ::
  "env \<Rightarrow> bytes \<Rightarrow> bytes list \<Rightarrow> string list option \<Rightarrow> (exn + dict) run" where
  "analyze_damage e current_image reference_images reference_names =
     (let req = AnalyzeDamagePrompt current_image reference_images reference_names
      in ([req], damage_result e (generate_content e req)))"

definition analyze_damage_standalone :: "env \<Rightarrow> bytes \<Rightarrow> (exn + dict) run" where
  "analyze_damage_standalone e current_image =
     (let req = StandaloneDamagePrompt current_image
      in ([req], damage_result e (generate_content e req)))"

definition no_damages_quote :: "string \<Rightarrow> dict" where
  "no_damages_quote currency =
     [(''status'', JString ''no_damages''),
      (''message'', JString ''No damages to quote''),
      (''total'', JInt 0),
      (''currency'', JString currency)]"

definition raw_quote_result :: "string \<Rightarrow> dict" where
  "raw_quote_result raw_text =
     [(''status'', JString ''quote_generated''),
      (''raw_quote'', JString raw_text),
      (''message'', JString ''Quote generated (see raw_quote)'')]"

definition generate_repair_quote ::
  "env \<Rightarrow> dict list \<Rightarrow> string \<Rightarrow> string \<Rightarrow> pyfloat option \<Rightarrow> (exn + dict) run" where
  "generate_repair_quote e damages country currency deposit_amount =
     (if damages = [] then ([], Inr (no_damages_quote currency))
      else
        (let req = RepairQuotePrompt damages country currency deposit_amount
         in ([req],
             (case generate_content e req of
                Raises x \<Rightarrow> Inl x
              | Reply None \<Rightarrow> Inl none_strip
              | Reply (Some raw_text) \<Rightarrow>
                  (case parse_reply e raw_text of
                     Raised x \<Rightarrow> Inl x
                   | DecodeError \<Rightarrow> Inr (raw_quote_result raw_text)
                   | Decoded result \<Rightarrow>
                       setitem result ''status'' (JString ''quote_generated''))))))"

section \<open>Base64\<close>

text \<open>\<open>base64.b64encode(data).decode('utf-8')\<close>: the standard alphabet, padded.\<close>

definition b64_alphabet :: string where
  "b64_alphabet = ''ABCDEFGHIJKLMNOPQRSTUVWXYZabcdefghijklmnopqrstuvwxyz0123456789+/''"

definition b64_char :: "nat \<Rightarrow> char" where
  "b64_char n = b64_alphabet ! (n mod 64)"

text \<open>Three bytes give four characters of six bits each.\<close>

fun b64encode :: "bytes \<Rightarrow> string" where
  "b64encode (a # b # c # rest) =
     (let x = (of_char a :: nat); y = (of_char b :: nat); z = (of_char c :: nat)
      in b64_char (x div 4) # b64_char ((x mod 4) * 16 + y div 16) #
         b64_char ((y mod 16) * 4 + z div 64) # b64_char (z mod 64) # b64encode rest)"
| "b64encode [a, b] =
     (let x = (of_char a :: nat); y = (of_char b :: nat)
      in [b64_char (x div 4), b64_char ((x mod 4) * 16 + y div 16),
          b64_char ((y mod 16) * 4), CHR ''=''])"
| "b64encode [a] =
     (let x = (of_char a :: nat)
      in [b64_char (x div 4), b64_char ((x mod 4) * 16), CHR ''='', CHR ''=''])"
| "b64encode [] = []"

section \<open>Lease documents (lease_agent.py)\<close>

text \<open>
  \<open>extract_lease_info\<close>: the whole body is inside \<open>try ... except Exception\<close>, so every
  exception becomes an error record; a reply that does not decode becomes a record with
  status \<open>partial\<close> carrying the raw text.
\<close>

definition lease_error :: "exn \<Rightarrow> dict" where
  "lease_error x =
     [(''status'', JString ''error''),
      (''message'', JString (''Document analysis failed: '' @ str_exn x))]"

definition lease_partial :: "string \<Rightarrow> dict" where
  "lease_partial raw_text =
     [(''status'', JString ''partial''),
      (''raw_extraction'', JString raw_text),
      (''message'', JString ''Could not parse structured data, raw extraction provided'')]"

definition extract_lease_info :: "env \<Rightarrow> bytes \<Rightarrow> string \<Rightarrow> dict run" where
  "extract_lease_info e document_bytes mime =
     (let req = LeaseInfoPrompt document_bytes mime
      in ([req],
          (case generate_content e req of
             Raises x \<Rightarrow> lease_error x
           | Reply None \<Rightarrow> lease_error none_strip
           | Reply (Some raw_text) \<Rightarrow>
               (case parse_reply e raw_text of
                  Raised x \<Rightarrow> lease_error x
                | DecodeError \<Rightarrow> lease_partial raw_text
                | Decoded result \<Rightarrow>
                    (case setitem result ''status'' (JString ''success'') of
                       Inl x \<Rightarrow> lease_error x
                     | Inr d \<Rightarrow> d)))))"

text \<open>
  \<open>extract_floor_plan_from_document\<close>: without an API key no request is sent. The
  decoding sits in a bare \<open>except\<close>, so any failure there, a reply without text
  included, leaves \<open>{"has_floor_plan": False}\<close>; a later exception is caught by the
  outer handler.
\<close>

definition floor_plan_error :: "exn \<Rightarrow> dict" where
  "floor_plan_error x =
     [(''status'', JString ''error''),
      (''message'', JString (''Floor plan extraction failed: '' @ str_exn x))]"

definition floor_plan_not_found :: "json \<Rightarrow> dict" where
  "floor_plan_not_found floor_plan_info =
     [(''status'', JString ''not_found''),
      (''message'', JString ''No floor plan found in document''),
      (''floor_plan_info'', floor_plan_info)]"

definition floor_plan_success :: "json \<Rightarrow> bytes \<Rightarrow> string \<Rightarrow> dict" where
  "floor_plan_success floor_plan_info document_bytes mime =
     [(''status'', JString ''success''),
      (''floor_plan_found'', JBool True),
      (''floor_plan_info'', floor_plan_info),
      (''document_base64'', JString (b64encode document_bytes)),
      (''document_mime_type'', JString mime),
      (''message'', JString ''Floor plan identified in document. Use this for 3D generation.'')]"

definition key_set :: "string option \<Rightarrow> bool" where
  "key_set k = (case k of None \<Rightarrow> False | Some s \<Rightarrow> s \<noteq> [])"

definition extract_floor_plan_from_document :: "env \<Rightarrow> bytes \<Rightarrow> string \<Rightarrow> dict run" where
  "extract_floor_plan_from_document e document_bytes mime =
     (if \<not> key_set (api_key e)
      then ([], [(''status'', JString ''error''), (''message'', JString ''API key not configured'')])
      else
        (let req = IdentifyFloorPlanPrompt document_bytes mime
         in ([req],
             (case generate_content e req of
                Raises x \<Rightarrow> floor_plan_error x
              | Reply raw \<Rightarrow>
                  (let floor_plan_info =
                         (case raw of
                            None \<Rightarrow> JObject [(''has_floor_plan'', JBool False)]
                          | Some raw_text \<Rightarrow>
                              (case parse_reply e raw_text of
                                 Decoded v \<Rightarrow> v
                               | _ \<Rightarrow> JObject [(''has_floor_plan'', JBool False)]))
                   in (case getattr_get floor_plan_info ''has_floor_plan'' JNull of
                         Inl x \<Rightarrow> floor_plan_error x
                       | Inr found \<Rightarrow>
                           if \<not> truthy found then floor_plan_not_found floor_plan_info
                           else floor_plan_success floor_plan_info document_bytes mime))))))"

text \<open>
  \<open>process_lease_document\<close> runs both extractions and builds its record; the two
  chained \<open>get\<close>s on \<open>security_deposit\<close> are outside any handler.
\<close>

definition process_lease_document :: "env \<Rightarrow> bytes \<Rightarrow> string \<Rightarrow> (exn + dict) run" where
  "process_lease_document e document_bytes mime =
     (let (log1, lease_info) = extract_lease_info e document_bytes mime;
          (log2, floor_plan_result) = extract_floor_plan_from_document e document_bytes mime;
          deposit = get_default lease_info ''security_deposit'' (JObject [])
      in (log1 @ log2,
          (case getattr_get deposit ''amount'' JNull of
             Inl x \<Rightarrow> Inl x
           | Inr amount \<Rightarrow>
               (case getattr_get deposit ''currency'' (JString ''USD'') of
                  Inl x \<Rightarrow> Inl x
                | Inr currency \<Rightarrow>
                    Inr [(''status'', JString ''success''),
                         (''lease_info'', JObject lease_info),
                         (''floor_plan'', JObject floor_plan_result),
                         (''ready_for_inspection'',
                            get_default floor_plan_result ''floor_plan_found'' (JBool False)),
                         (''deposit_amount'', amount),
                         (''deposit_currency'', currency)]))))"

text \<open>
  \<open>calculate_deposit_deductions\<close>: the request is sent whatever the damages are (an empty
  list is written into the prompt as "No damages found"); a reply that does not decode
  becomes an error record carrying the raw text.
\<close>

definition deduction_error :: "exn \<Rightarrow> dict" where
  "deduction_error x =
     [(''status'', JString ''error''),
      (''message'', JString (''Deduction calculation failed: '' @ str_exn x))]"

definition deduction_unparsed :: "string \<Rightarrow> dict" where
  "deduction_unparsed raw_text =
     [(''status'', JString ''error''),
      (''message'', JString ''Could not calculate deductions''),
      (''raw_response'', JString raw_text)]"

definition calculate_deposit_deductions ::
  "env \<Rightarrow> dict list \<Rightarrow> pyfloat \<Rightarrow> string \<Rightarrow> dict option \<Rightarrow> dict run" where
  "calculate_deposit_deductions e damages deposit_amount currency repair_quote =
     (let req = DeductionsPrompt damages deposit_amount currency repair_quote
      in ([req],
          (case generate_content e req of
             Raises x \<Rightarrow> deduction_error x
           | Reply None \<Rightarrow> deduction_error none_strip
           | Reply (Some raw_text) \<Rightarrow>
               (case parse_reply e raw_text of
                  Raised x \<Rightarrow> deduction_error x
                | DecodeError \<Rightarrow> deduction_unparsed raw_text
                | Decoded result \<Rightarrow>
                    (case setitem result ''status'' (JString ''success'') of
                       Inl x \<Rightarrow> deduction_error x
                     | Inr d \<Rightarrow> d)))))"

section \<open>Floor plans (floor_plan.py)\<close>

definition detect_mime_type :: "bytes \<Rightarrow> string" where
  "detect_mime_type bs =
     (if take 4 bs = ''%PDF'' then ''application/pdf''
      else if take 8 bs =
           [CHR 0x89, CHR ''P'', CHR ''N'', CHR ''G'', CHR 0x0D, CHR 0x0A, CHR 0x1A, CHR 0x0A]
        then ''image/png''
      else if take 2 bs = [CHR 0xFF, CHR 0xD8] then ''image/jpeg''
      else if take 6 bs = ''GIF87a'' \<or> take 6 bs = ''GIF89a'' then ''image/gif''
      else ''image/jpeg'')"

text \<open>\<open>mime_type\<close> when it is given and not empty, else the detected type.\<close>

definition resolve_mime :: "bytes \<Rightarrow> string option \<Rightarrow> string" where
  "resolve_mime bs mime =
     (case mime of
        None \<Rightarrow> detect_mime_type bs
      | Some m \<Rightarrow> if m = [] then detect_mime_type bs else m)"

definition none_not_iterable :: exn where
  "none_not_iterable =
     TypeError (''argument of type '' @ [CHR 0x27] @ ''NoneType'' @ [CHR 0x27] @
                '' is not iterable'')"

definition describe_floor_plan_from_document :: "env \<Rightarrow> bytes \<Rightarrow> string \<Rightarrow> dict run" where
  "describe_floor_plan_from_document e document_bytes mime =
     (let req = DescribeFloorPlanPrompt document_bytes mime;
          failed = (\<lambda>x. [(''status'', JString ''error''),
                         (''message'', JString (''Failed to analyze document: '' @ str_exn x))])
      in ([req],
          (case generate_content e req of
             Raises x \<Rightarrow> failed x
           | Reply None \<Rightarrow> failed none_not_iterable
           | Reply (Some txt) \<Rightarrow>
               if sublist ''NO_FLOOR_PLAN'' txt
               then [(''status'', JString ''no_floor_plan''),
                     (''message'', JString ''No floor plan found in document'')]
               else [(''status'', JString ''success''),
                     (''description'', JString txt),
                     (''has_floor_plan'', JBool True)])))"

subsection \<open>Consuming a stream of chunks\<close>

text \<open>
  The three variables of the loop:
  \<^verbatim>\<open>
  generated_image_b64 = None
  text_response = ""
  result_mime_type = "image/png"
  \<close>
\<close>

record stream_state =
  generated_image_b64 :: "string option"
  text_response :: string
  result_mime_type :: string

definition initial_state :: stream_state where
  "initial_state =
     \<lparr>generated_image_b64 = None, text_response = [], result_mime_type = ''image/png''\<rparr>"

text \<open>
  The loop body. Only the first part of the first candidate is read; inline data that
  is present and not empty replaces the image kept so far, otherwise text that is not
  empty is appended.
\<close>

definition consume_part :: "part \<Rightarrow> stream_state \<Rightarrow> stream_state" where
  "consume_part p st =
     (let on_text =
            (case part_text p of
               None \<Rightarrow> st
             | Some t \<Rightarrow> if t = [] then st else st\<lparr>text_response := text_response st @ t\<rparr>)
      in (case part_inline_data p of
            None \<Rightarrow> on_text
          | Some b \<Rightarrow>
              if blob_data b = [] then on_text
              else st\<lparr>generated_image_b64 := Some (b64encode (blob_data b)),
                      result_mime_type :=
                        (case blob_mime_type b of
                           None \<Rightarrow> ''image/png''
                         | Some m \<Rightarrow> if m = [] then ''image/png'' else m)\<rparr>))"

definition consume_chunk :: "stream_state \<Rightarrow> chunk \<Rightarrow> stream_state" where
  "consume_chunk st ch =
     (case ch of
        [] \<Rightarrow> st
      | None # _ \<Rightarrow> st
      | Some [] # _ \<Rightarrow> st
      | Some (p # _) # _ \<Rightarrow> consume_part p st)"

definition consume :: "chunk list \<Rightarrow> stream_state" where
  "consume chunks = foldl consume_chunk initial_state chunks"

text \<open>
  What follows the loop, with the wording (\<open>what\<close>) and the extra fields of the two call
  sites: an exception raised by the stream is caught, a kept image gives success, no
  image gives an error record carrying the text.
\<close>

definition stream_result ::
  "stream \<Rightarrow> string \<Rightarrow> string \<Rightarrow> string \<Rightarrow> dict \<Rightarrow> dict" where
  "stream_result str what_failed generated no_image extra =
     (case snd str of
        Some x \<Rightarrow>
          [(''status'', JString ''error''),
           (''message'', JString (what_failed @ str_exn x))]
      | None \<Rightarrow>
          (let st = consume (fst str);
               without = [(''status'', JString ''error''),
                          (''message'', JString no_image),
                          (''text_response'', JString (text_response st))]
           in (case generated_image_b64 st of
                 None \<Rightarrow> without
               | Some img \<Rightarrow>
                   if img = [] then without
                   else [(''status'', JString ''success''),
                         (''image_base64'', JString img),
                         (''mime_type'', JString (result_mime_type st)),
                         (''description'',
                            JString (if text_response st = [] then generated
                                     else text_response st))] @ extra)))"

definition generate_3d_floor_plan_image ::
  "env \<Rightarrow> bytes \<Rightarrow> json option \<Rightarrow> string option \<Rightarrow> dict run" where
  "generate_3d_floor_plan_image e floor_plan_image floor_plan_data mime =
     (if \<not> key_set (api_key e)
      then ([], [(''status'', JString ''error''),
                 (''message'', JString
                    ''API key not set. Get one from https://aistudio.google.com/app/apikey'')])
      else
        (let m = resolve_mime floor_plan_image mime
         in if m = ''application/pdf''
            then
              (let (log1, description_result) =
                     describe_floor_plan_from_document e floor_plan_image m
               in if get_none description_result ''status'' \<noteq> JString ''success''
                  then (log1, description_result)
                  else
                    (let req = Render3DFromDescription
                                 (get_default description_result ''description'' (JString []))
                     in (log1 @ [req],
                         stream_result (generate_content_stream e req)
                           ''PDF 3D generation failed: ''
                           ''3D visualization generated from PDF''
                           ''No image generated from PDF description''
                           [(''source'', JString ''pdf_description'')])))
            else
              (let image_mime = (if prefix ''image/'' m then m else ''image/jpeg'');
                   req = Render3DFromImage floor_plan_image image_mime
               in ([req],
                   stream_result (generate_content_stream e req)
                     ''Image generation failed: ''
                     ''3D visualization generated''
                     ''No image generated''
                     []))))"

definition parse_floor_plan :: "env \<Rightarrow> bytes \<Rightarrow> string option \<Rightarrow> dict run" where
  "parse_floor_plan e floor_plan_image mime =
     (let req = ParseFloorPlanPrompt floor_plan_image (resolve_mime floor_plan_image mime);
          failed = (\<lambda>x. [(''status'', JString ''error''),
                         (''message'', JString (str_exn x)),
                         (''rooms'', JArray [])])
      in ([req],
          (case generate_content e req of
             Raises x \<Rightarrow> failed x
           | Reply None \<Rightarrow> failed none_strip
           | Reply (Some raw_text) \<Rightarrow>
               (case parse_reply e raw_text of
                  Raised x \<Rightarrow> failed x
                | DecodeError \<Rightarrow>
                    [(''status'', JString ''success''),
                     (''raw_analysis'', JString raw_text),
                     (''rooms'', JArray [])]
                | Decoded result \<Rightarrow>
                    (case setitem result ''status'' (JString ''success'') of
                       Inl x \<Rightarrow> failed x
                     | Inr d \<Rightarrow> d)))))"

subsection \<open>Iterating decoded values, and using them as dictionary keys\<close>

definition and_then :: "exn + 'a \<Rightarrow> ('a \<Rightarrow> exn + 'b) \<Rightarrow> exn + 'b" where
  "and_then r f = (case r of Inl x \<Rightarrow> Inl x | Inr v \<Rightarrow> f v)"

fun map_exn :: "('a \<Rightarrow> exn + 'b) \<Rightarrow> 'a list \<Rightarrow> exn + 'b list" where
  "map_exn f [] = Inr []"
| "map_exn f (x # xs) =
     (case f x of
        Inl e \<Rightarrow> Inl e
      | Inr y \<Rightarrow> (case map_exn f xs of Inl e \<Rightarrow> Inl e | Inr ys \<Rightarrow> Inr (y # ys)))"

definition quoted :: "string \<Rightarrow> string" where
  "quoted s = [CHR 0x27] @ s @ [CHR 0x27]"

text \<open>
  \<open>for x in v\<close>: a list gives its elements, a dict its keys, a string its characters;
  nothing else is iterable.
\<close>

fun iter_json :: "json \<Rightarrow> exn + json list" where
  "iter_json (JArray xs) = Inr xs"
| "iter_json (JObject d) = Inr (map (\<lambda>kv. JString (fst kv)) d)"
| "iter_json (JString s) = Inr (map (\<lambda>c. JString [c]) s)"
| "iter_json x = Inl (TypeError (quoted (type_name x) @ '' object is not iterable''))"

text \<open>\<open>v.get\<close> exists on a dict only.\<close>

fun as_dict :: "json \<Rightarrow> exn + dict" where
  "as_dict (JObject d) = Inr d"
| "as_dict x =
     Inl (AttributeError (quoted (type_name x) @ '' object has no attribute '' @ quoted ''get''))"

text \<open>Lists and dicts cannot be dictionary keys.\<close>

fun check_hashable :: "json \<Rightarrow> exn + json" where
  "check_hashable (JArray xs) = Inl (TypeError (''unhashable type: '' @ quoted ''list''))"
| "check_hashable (JObject d) = Inl (TypeError (''unhashable type: '' @ quoted ''dict''))"
| "check_hashable x = Inr x"

text \<open>
  Two keys are the same key when Python finds them equal: numbers (booleans are the
  integers 0 and 1) by their value, here \<open>a / 2 ^ k\<close>; everything else by being the same
  value.
\<close>

fun num_view :: "json \<Rightarrow> (int \<times> nat) option" where
  "num_view (JInt i) = Some (i, 0)"
| "num_view (JBool b) = Some (if b then 1 else 0, 0)"
| "num_view (JFloat (Finite s m e)) =
     (let a = (if s then - int m else int m)
      in if 0 \<le> e then Some (a * 2 ^ nat e, 0) else Some (a, nat (- e)))"
| "num_view x = None"

definition py_eq :: "json \<Rightarrow> json \<Rightarrow> bool" where
  "py_eq x y =
     (case (num_view x, num_view y) of
        (Some (a, j), Some (b, k)) \<Rightarrow> a * 2 ^ k = b * 2 ^ j
      | (None, None) \<Rightarrow> x = y
      | _ \<Rightarrow> False)"

text \<open>A dict with decoded values as keys: \<open>d[k] = v\<close> and \<open>d.get(k)\<close>.\<close>

fun pyd_set :: "(json \<times> 'v) list \<Rightarrow> json \<Rightarrow> 'v \<Rightarrow> (json \<times> 'v) list" where
  "pyd_set [] k v = [(k, v)]"
| "pyd_set ((k', v') # d) k v =
     (if py_eq k' k then (k', v) # d else (k', v') # pyd_set d k v)"

fun pyd_get :: "(json \<times> 'v) list \<Rightarrow> json \<Rightarrow> 'v option" where
  "pyd_get [] k = None"
| "pyd_get ((k', v') # d) k = (if py_eq k' k then Some v' else pyd_get d k)"

subsection \<open>The 3D layout\<close>

definition room_colors :: "(string \<times> string) list" where
  "room_colors =
     [(''living'', ''#4CAF50''), (''bedroom'', ''#2196F3''), (''bathroom'', ''#00BCD4''),
      (''kitchen'', ''#FF9800''), (''hallway'', ''#9E9E9E''), (''other'', ''#607D8B'')]"

text \<open>\<open>v.lower()\<close> exists on a string only.\<close>

fun lower_of :: "json \<Rightarrow> exn + string" where
  "lower_of (JString s) = Inr (lower s)"
| "lower_of x =
     Inl (AttributeError
            (quoted (type_name x) @ '' object has no attribute '' @ quoted ''lower''))"

definition layout_room :: "json \<Rightarrow> exn + json" where
  "layout_room room =
     and_then (as_dict room) (\<lambda>d.
       let pos = get_default d ''position'' (JObject [])
       in and_then (lower_of (get_default d ''type'' (JString []))) (\<lambda>ty.
          and_then (getattr_get pos ''x'' (JInt 0)) (\<lambda>x.
          and_then (getattr_get pos ''y'' (JInt 0)) (\<lambda>z.
          and_then (getattr_get pos ''width'' (JInt 10)) (\<lambda>width.
          and_then (getattr_get pos ''height'' (JInt 10)) (\<lambda>depth.
            Inr (JObject
              [(''id'', get_default d ''id'' (JString [])),
               (''name'', get_default d ''name'' (JString [])),
               (''type'', get_default d ''type'' (JString ''other'')),
               (''color'', JString (case map_of room_colors ty of
                                      None \<Rightarrow> ''#607D8B''
                                    | Some c \<Rightarrow> c)),
               (''geometry'', JObject [(''x'', x), (''z'', z),
                                       (''width'', width), (''depth'', depth)]),
               (''inspection_priority'',
                  get_default d ''inspection_priority'' (JString ''medium''))])))))))"

definition generate_3d_layout :: "dict \<Rightarrow> exn + dict" where
  "generate_3d_layout floor_plan_data =
     and_then (iter_json (get_default floor_plan_data ''rooms'' (JArray []))) (\<lambda>rooms.
     and_then (map_exn layout_room rooms) (\<lambda>rooms_3d.
       Inr [(''type'', JString ''3d_floor_plan''),
            (''rooms'', JArray rooms_3d),
            (''inspection_route'',
               get_default floor_plan_data ''inspection_route'' (JArray []))]))"

subsection \<open>The inspection checklist\<close>

text \<open>
  \<open>route_order = {room_id: i for i, room_id in enumerate(inspection_route)}\<close>: a room
  identifier listed more than once keeps the index of its last occurrence.
\<close>

fun build_route_order ::
  "(json \<times> nat) list \<Rightarrow> nat \<Rightarrow> json list \<Rightarrow> exn + (json \<times> nat) list" where
  "build_route_order d i [] = Inr d"
| "build_route_order d i (room_id # rest) =
     (case check_hashable room_id of
        Inl x \<Rightarrow> Inl x
      | Inr k \<Rightarrow> build_route_order (pyd_set d k i) (Suc i) rest)"

text \<open>The sort key: \<open>route_order.get(r.get("id", ""), 999)\<close>.\<close>

definition room_rank :: "(json \<times> nat) list \<Rightarrow> json \<Rightarrow> exn + nat" where
  "room_rank route_order r =
     and_then (as_dict r) (\<lambda>d.
     and_then (check_hashable (get_default d ''id'' (JString []))) (\<lambda>k.
       Inr (case pyd_get route_order k of None \<Rightarrow> 999 | Some i \<Rightarrow> i)))"

text \<open>
  \<open>sorted(rooms, key=...)\<close>: the keys are computed once, in the order of the list, and the
  sort is stable. \<^const>\<open>sort_key\<close> is the stable insertion sort.
\<close>

definition sorted_rooms :: "(json \<times> nat) list \<Rightarrow> json list \<Rightarrow> exn + json list" where
  "sorted_rooms route_order rooms =
     and_then (map_exn (room_rank route_order) rooms) (\<lambda>ranks.
       Inr (map snd (sort_key fst (zip ranks rooms))))"

definition check_item :: "string \<Rightarrow> json" where
  "check_item name = JObject [(''item'', JString name), (''checked'', JBool False)]"

definition base_items :: "json list" where
  "base_items = [check_item ''Walls'', check_item ''Ceiling'', check_item ''Floor'']"

definition type_items :: "(string \<times> json list) list" where
  "type_items =
     [(''bathroom'', [check_item ''Toilet'', check_item ''Sink'', check_item ''Shower'']),
      (''kitchen'', [check_item ''Cabinets'', check_item ''Countertops'',
                     check_item ''Appliances'']),
      (''bedroom'', [check_item ''Windows'', check_item ''Closet'']),
      (''living'', [check_item ''Windows'', check_item ''Outlets''])]"

text \<open>\<open>type_items.get(room_type, [])\<close>: the keys of the table are strings.\<close>

definition type_items_get :: "json \<Rightarrow> exn + json list" where
  "type_items_get room_type =
     and_then (check_hashable room_type) (\<lambda>k.
       Inr (case k of
              JString s \<Rightarrow> (case map_of type_items s of None \<Rightarrow> [] | Some xs \<Rightarrow> xs)
            | _ \<Rightarrow> []))"

definition checklist_entry :: "json \<Rightarrow> exn + json" where
  "checklist_entry room =
     and_then (as_dict room) (\<lambda>d.
       let room_type = get_default d ''type'' (JString ''other'')
       in and_then (type_items_get room_type) (\<lambda>extra.
            Inr (JObject
              [(''room_id'', get_default d ''id'' (JString [])),
               (''room_name'', get_default d ''name'' (JString [])),
               (''room_type'', room_type),
               (''status'', JString ''pending''),
               (''priority'', get_default d ''inspection_priority'' (JString ''medium'')),
               (''inspection_items'', JArray (base_items @ extra)),
               (''tips'', get_default d ''inspection_tips'' (JArray [])),
               (''damages_found'', JArray [])])))"

text \<open>\<open>checklist[0]["room_id"] if checklist else None\<close>.\<close>

definition next_room :: "json list \<Rightarrow> exn + json" where
  "next_room checklist =
     (case checklist of
        [] \<Rightarrow> Inr JNull
      | c # _ \<Rightarrow> and_then (as_dict c) (\<lambda>d. Inr (get_none d ''room_id'')))"

text \<open>
  \<open>len(rooms)\<close> is the number of elements the iteration over \<open>rooms\<close> gave.
\<close>

definition create_inspection_checklist :: "dict \<Rightarrow> exn + dict" where
  "create_inspection_checklist floor_plan_data =
     (let rooms = get_default floor_plan_data ''rooms'' (JArray []);
          inspection_route = get_default floor_plan_data ''inspection_route'' (JArray [])
      in and_then (iter_json inspection_route) (\<lambda>route.
         and_then (build_route_order [] 0 route) (\<lambda>route_order.
         and_then (iter_json rooms) (\<lambda>room_list.
         and_then (sorted_rooms route_order room_list) (\<lambda>ordered.
         and_then (map_exn checklist_entry ordered) (\<lambda>checklist.
         and_then (next_room checklist) (\<lambda>nxt.
           Inr [(''status'', JString ''success''),
                (''total_rooms'', JInt (int (length room_list))),
                (''checklist'', JArray checklist),
                (''navigation'', JObject
                   [(''current_room'', JNull),
                    (''next_room'', nxt),
                    (''completed_rooms'', JInt 0),
                    (''total_rooms'', JInt (int (length checklist)))])])))))))"

section \<open>The project store and the endpoints (server.py)\<close>

text \<open>
  The three module-level dictionaries. A stored record holds decoded values and raw
  bytes. A handler takes the decoded document; an exception escaping its body becomes
  \<open>HTTPException(status_code=500, detail=str(e))\<close>, and what it had already written to
  the dictionaries stays written.
\<close>

datatype stored = SJson json | SBytes bytes

type_synonym entry = "(string \<times> stored) list"

record db =
  projects_db :: "string \<rightharpoonup> entry"
  floor_plans_db :: "string \<rightharpoonup> entry"
  inspection_state_db :: "string \<rightharpoonup> dict"

definition empty_db :: db where
  "empty_db = \<lparr>projects_db = Map.empty, floor_plans_db = Map.empty,
                inspection_state_db = Map.empty\<rparr>"

datatype response = HTTPError nat string | Body dict

definition http_500 :: "exn \<Rightarrow> response" where
  "http_500 x = HTTPError 500 (str_exn x)"

text \<open>\<open>{"status": "success", "project_id": project_id, **result}\<close>.\<close>

definition with_result :: "string \<Rightarrow> dict \<Rightarrow> dict" where
  "with_result project_id result =
     foldl (\<lambda>d (k, v). dict_set d k v)
       [(''status'', JString ''success''), (''project_id'', JString project_id)] result"

definition process_lease_endpoint ::
  "env \<Rightarrow> db \<Rightarrow> string \<Rightarrow> bytes \<Rightarrow> string \<Rightarrow> (db \<times> response) run" where
  "process_lease_endpoint e s project_id document_bytes mime =
     (let (log, r) = process_lease_document e document_bytes mime
      in (log,
          (case r of
             Inl x \<Rightarrow> (s, http_500 x)
           | Inr result \<Rightarrow>
               (s\<lparr>projects_db := (projects_db s)(project_id \<mapsto>
                    [(''lease_info'', SJson (get_none result ''lease_info'')),
                     (''deposit_amount'', SJson (get_none result ''deposit_amount'')),
                     (''deposit_currency'', SJson (get_none result ''deposit_currency'')),
                     (''document_bytes'', SBytes document_bytes),
                     (''mime_type'', SJson (JString mime))])\<rparr>,
                Body (with_result project_id result)))))"

text \<open>
  \<open>extract_lease_info_endpoint\<close> updates a project only if it exists. The lease record is
  written first; the deposit fields follow when \<open>security_deposit\<close> is true, which raises
  if it is not a dict.
\<close>

definition set_project_field :: "db \<Rightarrow> string \<Rightarrow> string \<Rightarrow> stored \<Rightarrow> db" where
  "set_project_field s project_id k v =
     (case projects_db s project_id of
        None \<Rightarrow> s
      | Some p \<Rightarrow> s\<lparr>projects_db := (projects_db s)(project_id \<mapsto> dict_set p k v)\<rparr>)"

definition extract_lease_info_endpoint ::
  "env \<Rightarrow> db \<Rightarrow> string \<Rightarrow> bytes \<Rightarrow> string \<Rightarrow> (db \<times> response) run" where
  "extract_lease_info_endpoint e s project_id document_bytes mime =
     (let (log, result) = extract_lease_info e document_bytes mime
      in (log,
          (if projects_db s project_id \<noteq> None
           then
             (let s1 = set_project_field s project_id ''lease_info'' (SJson (JObject result));
                  deposit = get_none result ''security_deposit''
              in if truthy deposit
                 then
                   (case getattr_get deposit ''amount'' JNull of
                      Inl x \<Rightarrow> (s1, http_500 x)
                    | Inr amount \<Rightarrow>
                        (let s2 = set_project_field s1 project_id ''deposit_amount''
                                    (SJson amount)
                         in (case getattr_get deposit ''currency'' (JString ''USD'') of
                               Inl x \<Rightarrow> (s2, http_500 x)
                             | Inr currency \<Rightarrow>
                                 (set_project_field s2 project_id ''deposit_currency''
                                    (SJson currency),
                                  Body result))))
                 else (s1, Body result))
           else (s, Body result))))"

definition extract_floor_plan_endpoint ::
  "env \<Rightarrow> db \<Rightarrow> string \<Rightarrow> bytes \<Rightarrow> string \<Rightarrow> (db \<times> response) run" where
  "extract_floor_plan_endpoint e s project_id document_bytes mime =
     (let (log, result) = extract_floor_plan_from_document e document_bytes mime
      in (log,
          (if truthy (get_none result ''floor_plan_found'')
           then s\<lparr>floor_plans_db := (floor_plans_db s)(project_id \<mapsto>
                     [(''document_bytes'', SBytes document_bytes),
                      (''mime_type'', SJson (JString mime)),
                      (''floor_plan_info'', SJson (get_none result ''floor_plan_info''))])\<rparr>
           else s,
           Body result)))"

text \<open>
  \<open>generate_3d_from_document_endpoint\<close>: when the check finds no floor plan the handler
  returns at once; otherwise the four later stages run in the order written, and the
  returned status is the literal \<open>"success"\<close>.
\<close>

definition generate_3d_from_document_endpoint ::
  "env \<Rightarrow> db \<Rightarrow> string \<Rightarrow> bytes \<Rightarrow> string \<Rightarrow> (db \<times> response) run" where
  "generate_3d_from_document_endpoint e s project_id document_bytes mime =
     (let (log1, floor_plan_check) = extract_floor_plan_from_document e document_bytes mime
      in if \<not> truthy (get_none floor_plan_check ''floor_plan_found'')
         then (log1,
               (s, Body [(''status'', JString ''no_floor_plan''),
                         (''message'', JString ''No floor plan found in the lease document''),
                         (''floor_plan_info'', get_none floor_plan_check ''floor_plan_info'')]))
         else
           (let (log2, floor_plan_data) = parse_floor_plan e document_bytes (Some mime);
                s1 = s\<lparr>floor_plans_db := (floor_plans_db s)(project_id \<mapsto>
                          [(''data'', SJson (JObject floor_plan_data)),
                           (''document_bytes'', SBytes document_bytes),
                           (''mime_type'', SJson (JString mime))])\<rparr>
            in (case generate_3d_layout floor_plan_data of
                  Inl x \<Rightarrow> (log1 @ log2, (s1, http_500 x))
                | Inr layout_3d \<Rightarrow>
                    (case create_inspection_checklist floor_plan_data of
                       Inl x \<Rightarrow> (log1 @ log2, (s1, http_500 x))
                     | Inr checklist \<Rightarrow>
                         (let s2 = s1\<lparr>inspection_state_db :=
                                         (inspection_state_db s1)(project_id \<mapsto> checklist)\<rparr>;
                              (log3, image_result) =
                                generate_3d_floor_plan_image e document_bytes
                                  (Some (JObject floor_plan_data)) (Some mime)
                          in (log1 @ log2 @ log3,
                              (s2, Body [(''status'', JString ''success''),
                                         (''project_id'', JString project_id),
                                         (''floor_plan'', JObject floor_plan_data),
                                         (''layout_3d'', JObject layout_3d),
                                         (''checklist'', JObject checklist),
                                         (''image_3d'', JObject image_result),
                                         (''floor_plan_info'',
                                            get_none floor_plan_check ''floor_plan_info'')])))))))"

definition calculate_deductions_endpoint ::
  "env \<Rightarrow> db \<Rightarrow> string \<Rightarrow> dict list \<Rightarrow> pyfloat \<Rightarrow> string \<Rightarrow> dict option
     \<Rightarrow> (db \<times> response) run" where
  "calculate_deductions_endpoint e s project_id damages deposit_amount currency repair_quote =
     (let (log, result) =
            calculate_deposit_deductions e damages deposit_amount currency repair_quote
      in (log,
          (set_project_field s project_id ''deposit_deductions'' (SJson (JObject result)),
           Body result)))"

text \<open>\<open>get_project\<close>: what the three dictionaries hold for a project, absent as \<open>None\<close>.\<close>

definition stored_get :: "entry option \<Rightarrow> string \<Rightarrow> stored" where
  "stored_get p k =
     (case p of
        None \<Rightarrow> SJson JNull
      | Some d \<Rightarrow> (case map_of d k of None \<Rightarrow> SJson JNull | Some v \<Rightarrow> v))"

definition get_project :: "db \<Rightarrow> string \<Rightarrow> (string \<times> stored) list" where
  "get_project s project_id =
     (let project = projects_db s project_id;
          floor_plan = floor_plans_db s project_id
      in [(''project_id'', SJson (JString project_id)),
          (''lease_info'', stored_get project ''lease_info''),
          (''deposit_amount'', stored_get project ''deposit_amount''),
          (''deposit_currency'', stored_get project ''deposit_currency''),
          (''floor_plan'', stored_get floor_plan ''data''),
          (''inspection_checklist'',
             SJson (JObject (case inspection_state_db s project_id of
                               None \<Rightarrow> []
                             | Some c \<Rightarrow> c))),
          (''deposit_deductions'', stored_get project ''deposit_deductions'')])"

section \<open>A concrete decoder\<close>

text \<open>
  The theorems about every reply are stated for an arbitrary decoder \<^const>\<open>json_loads\<close>.
  To run the operations on concrete replies, \<open>decode_json\<close> decodes the part of JSON
  written with objects, arrays, strings without escapes, integers and the three literals.
  On a text it accepts it returns the value \<open>json.loads\<close> returns (a repeated key keeps
  its first position and its last value); it rejects numbers with a fraction or an
  exponent and strings with a backslash, which \<open>json.loads\<close> accepts. It has no limit
  on the digits of an integer or on the depth of nesting, where \<open>json.loads\<close> raises,
  so it stands for \<open>json.loads\<close> only on texts that are short and shallow, as all the
  concrete replies below are. The fuel bounds the number of nested calls; the length of
  the text is enough.
\<close>

definition is_json_ws :: "char \<Rightarrow> bool" where
  "is_json_ws c = (c = CHR 0x20 \<or> c = CHR 0x09 \<or> c = CHR 0x0A \<or> c = CHR 0x0D)"

definition skip_ws :: "string \<Rightarrow> string" where
  "skip_ws s = dropWhile is_json_ws s"

text \<open>The characters of a string up to its closing quote, and what follows it.\<close>

fun lex_string :: "string \<Rightarrow> (string \<times> string) option" where
  "lex_string [] = None"
| "lex_string (c # s) =
     (if c = CHR 0x22 then Some ([], s)
      else if c = CHR 0x5C \<or> (of_char c :: nat) < 32 then None
      else (case lex_string s of
              None \<Rightarrow> None
            | Some (str, rest) \<Rightarrow> Some (c # str, rest)))"

definition is_digit :: "char \<Rightarrow> bool" where
  "is_digit c = (48 \<le> (of_char c :: nat) \<and> (of_char c :: nat) \<le> 57)"

definition digits_value :: "string \<Rightarrow> nat" where
  "digits_value ds = foldl (\<lambda>n c. 10 * n + (of_char c - 48)) 0 ds"

definition lex_int :: "string \<Rightarrow> (int \<times> string) option" where
  "lex_int s =
     (let neg = prefix ''-'' s;
          s1 = (if neg then drop 1 s else s);
          ds = takeWhile is_digit s1;
          rest = dropWhile is_digit s1
      in if ds = [] \<or> (1 < length ds \<and> prefix ''0'' ds)
            \<or> prefix ''.'' rest \<or> prefix ''e'' rest \<or> prefix ''E'' rest
         then None
         else Some (if neg then - int (digits_value ds) else int (digits_value ds), rest))"

definition dict_of_pairs :: "(string \<times> json) list \<Rightarrow> dict" where
  "dict_of_pairs kvs = foldl (\<lambda>d (k, v). dict_set d k v) [] kvs"

fun parse_value :: "nat \<Rightarrow> string \<Rightarrow> (json \<times> string) option"
  and parse_elements :: "nat \<Rightarrow> string \<Rightarrow> (json list \<times> string) option"
  and parse_members :: "nat \<Rightarrow> string \<Rightarrow> ((string \<times> json) list \<times> string) option"
where
  "parse_value 0 s = None"
| "parse_value (Suc n) s =
     (case skip_ws s of
        [] \<Rightarrow> None
      | c # r \<Rightarrow>
          if c = CHR ''{'' then
            (if prefix ''}'' (skip_ws r) then Some (JObject [], drop 1 (skip_ws r))
             else (case parse_members n r of
                     None \<Rightarrow> None
                   | Some (kvs, r') \<Rightarrow> Some (JObject (dict_of_pairs kvs), r')))
          else if c = CHR ''['' then
            (if prefix '']'' (skip_ws r) then Some (JArray [], drop 1 (skip_ws r))
             else (case parse_elements n r of
                     None \<Rightarrow> None
                   | Some (vs, r') \<Rightarrow> Some (JArray vs, r')))
          else if c = CHR 0x22 then
            (case lex_string r of
               None \<Rightarrow> None
             | Some (str, r') \<Rightarrow> Some (JString str, r'))
          else if prefix ''true'' (c # r) then Some (JBool True, drop 4 (c # r))
          else if prefix ''false'' (c # r) then Some (JBool False, drop 5 (c # r))
          else if prefix ''null'' (c # r) then Some (JNull, drop 4 (c # r))
          else (case lex_int (c # r) of
                  None \<Rightarrow> None
                | Some (i, r') \<Rightarrow> Some (JInt i, r')))"
| "parse_elements 0 s = None"
| "parse_elements (Suc n) s =
     (case parse_value n s of
        None \<Rightarrow> None
      | Some (v, r) \<Rightarrow>
          (case skip_ws r of
             [] \<Rightarrow> None
           | c # r' \<Rightarrow>
               if c = CHR '','' then
                 (case parse_elements n r' of
                    None \<Rightarrow> None
                  | Some (vs, r'') \<Rightarrow> Some (v # vs, r''))
               else if c = CHR '']'' then Some ([v], r')
               else None))"
| "parse_members 0 s = None"
| "parse_members (Suc n) s =
     (case skip_ws s of
        [] \<Rightarrow> None
      | q # r \<Rightarrow>
          if q \<noteq> CHR 0x22 then None
          else
            (case lex_string r of
               None \<Rightarrow> None
             | Some (k, r1) \<Rightarrow>
                 (case skip_ws r1 of
                    [] \<Rightarrow> None
                  | c1 # r2 \<Rightarrow>
                      if c1 \<noteq> CHR '':'' then None
                      else
                        (case parse_value n r2 of
                           None \<Rightarrow> None
                         | Some (v, r3) \<Rightarrow>
                             (case skip_ws r3 of
                                [] \<Rightarrow> None
                              | c3 # r4 \<Rightarrow>
                                  if c3 = CHR '','' then
                                    (case parse_members n r4 of
                                       None \<Rightarrow> None
                                     | Some (kvs, r5) \<Rightarrow> Some ((k, v) # kvs, r5))
                                  else if c3 = CHR ''}'' then Some ([(k, v)], r4)
                                  else None)))))"

definition decode_json :: "string \<Rightarrow> json option" where
  "decode_json s =
     (case parse_value (Suc (length s)) s of
        None \<Rightarrow> None
      | Some (v, r) \<Rightarrow> if skip_ws r = [] then Some v else None)"

text \<open>The same as an outcome of \<open>json.loads\<close>: a text it rejects is a decode error.\<close>

definition loads_short :: "string \<Rightarrow> loaded" where
  "loads_short s = (case decode_json s of None \<Rightarrow> JSONDecodeError | Some v \<Rightarrow> Loaded v)"

subsection \<open>Inputs and notions used in the statements\<close>

text \<open>
  An environment whose model answers every single-shot request with one given text, whose
  streams are empty, and which decodes with \<^const>\<open>loads_short\<close>.
\<close>

definition reply_env :: "string \<Rightarrow> env" where
  "reply_env txt =
     \<lparr>json_loads = loads_short,
      generate_content = (\<lambda>req. Reply (Some txt)),
      generate_content_stream = (\<lambda>req. ([], None)),
      api_key = Some ''key''\<rparr>"

text \<open>The damage vocabulary as the specification lists it: eleven terms.\<close>

definition claimed_vocabulary :: "string list" where
  "claimed_vocabulary =
     [''water'', ''crack'', ''hole'', ''dent'', ''scratch'', ''stain'',
      ''peel'', ''mold'', ''broken'', ''chip'', ''wear'']"

text \<open>
  A reply to the quote request whose line items add up to 60 and 40 while its summary
  block says 1, 2, 3, 4 and 5; and the record the operation returns for it.
\<close>

definition quote_reply :: string where
  \<open>quote_reply =
     ''{"materials": [{"name": "paint", "total": 60}], '' @
     ''"labor": [{"task": "painting", "total": 40}], '' @
     ''"summary": {"materials_total": 1, "labor_total": 2, "subtotal": 3, '' @
     ''"contingency_10_percent": 4, "grand_total": 5}}''\<close>

definition quote_returned :: dict where
  "quote_returned =
     [(''materials'', JArray [JObject [(''name'', JString ''paint''), (''total'', JInt 60)]]),
      (''labor'', JArray [JObject [(''task'', JString ''painting''), (''total'', JInt 40)]]),
      (''summary'', JObject
         [(''materials_total'', JInt 1), (''labor_total'', JInt 2), (''subtotal'', JInt 3),
          (''contingency_10_percent'', JInt 4), (''grand_total'', JInt 5)]),
      (''status'', JString ''quote_generated'')]"

definition one_damage :: "dict list" where
  "one_damage = [[(''type'', JString ''hole''), (''severity'', JString ''minor'')]]"

text \<open>
  The arithmetic the specification asks for, on integer amounts: the sum of one field
  over a list of line items.
\<close>

fun item_amount :: "string \<Rightarrow> json \<Rightarrow> int" where
  "item_amount k (JObject d) = (case dict_get d k of Some (JInt i) \<Rightarrow> i | _ \<Rightarrow> 0)"
| "item_amount k x = 0"

definition sum_field :: "string \<Rightarrow> json option \<Rightarrow> int" where
  "sum_field k xs =
     (case xs of Some (JArray items) \<Rightarrow> sum_list (map (item_amount k) items) | _ \<Rightarrow> 0)"

definition summary_field :: "dict \<Rightarrow> string \<Rightarrow> json option" where
  "summary_field q k =
     (case dict_get q ''summary'' of Some (JObject s) \<Rightarrow> dict_get s k | _ \<Rightarrow> None)"

text \<open>
  A reply to the deduction request whose one deduction is 300 while it states a total of
  100 and a return of -50; the record returned for it; and a deposit of 200.
\<close>

definition deduction_reply :: string where
  \<open>deduction_reply =
     ''{"deductions": [{"item": "hole in wall", "deduction_amount": 300}], '' @
     ''"total_deductions": 100, "deposit_return": -50}''\<close>

definition deduction_returned :: dict where
  "deduction_returned =
     [(''deductions'', JArray
         [JObject [(''item'', JString ''hole in wall''), (''deduction_amount'', JInt 300)]]),
      (''total_deductions'', JInt 100),
      (''deposit_return'', JInt (- 50)),
      (''status'', JString ''success'')]"

definition deposit_200 :: pyfloat where
  "deposit_200 = Finite False 200 0"

text \<open>A reply that is prose, not JSON.\<close>

definition prose_reply :: string where
  "prose_reply = ''I could not work this out.''"

text \<open>
  An environment whose model raises on every request, and one whose model confirms a
  floor plan when asked to identify one and raises on every other request. Both have an
  API key, decode with \<^const>\<open>loads_short\<close>, and deliver empty streams.
\<close>

definition failing_env :: env where
  "failing_env =
     \<lparr>json_loads = loads_short,
      generate_content = (\<lambda>req. Raises (ModelError ''quota exceeded'')),
      generate_content_stream = (\<lambda>req. ([], None)),
      api_key = Some ''key''\<rparr>"

fun identify_only :: "request \<Rightarrow> reply" where
  \<open>identify_only (IdentifyFloorPlanPrompt doc mime) =
     Reply (Some ''{"has_floor_plan": true}'')\<close>
| "identify_only req = Raises (ModelError ''quota exceeded'')"

definition scenario_env :: env where
  "scenario_env =
     \<lparr>json_loads = loads_short,
      generate_content = identify_only,
      generate_content_stream = (\<lambda>req. ([], None)),
      api_key = Some ''key''\<rparr>"

text \<open>
  What one chunk contributes to the loop: the inline data of its first part when that is
  present and not empty, otherwise the text of that part.
\<close>

definition first_part :: "chunk \<Rightarrow> part option" where
  "first_part ch = (case ch of Some (p # _) # _ \<Rightarrow> Some p | _ \<Rightarrow> None)"

definition image_of :: "chunk \<Rightarrow> blob option" where
  "image_of ch =
     (case first_part ch of
        None \<Rightarrow> None
      | Some p \<Rightarrow>
          (case part_inline_data p of
             None \<Rightarrow> None
           | Some b \<Rightarrow> if blob_data b = [] then None else Some b))"

definition text_of :: "chunk \<Rightarrow> string" where
  "text_of ch =
     (case first_part ch of
        None \<Rightarrow> []
      | Some p \<Rightarrow>
          if image_of ch \<noteq> None then []
          else (case part_text p of None \<Rightarrow> [] | Some t \<Rightarrow> t))"

definition binary_fragments :: "chunk list \<Rightarrow> blob list" where
  "binary_fragments chunks = List.map_filter image_of chunks"

definition text_fragments :: "chunk list \<Rightarrow> string" where
  "text_fragments chunks = concat (map text_of chunks)"

definition mime_or_png :: "blob \<Rightarrow> string" where
  "mime_or_png b =
     (case blob_mime_type b of
        None \<Rightarrow> ''image/png''
      | Some m \<Rightarrow> if m = [] then ''image/png'' else m)"

text \<open>
  Chunks with one binary or one text part, and an environment whose streams deliver a
  given list of chunks and then end.
\<close>

definition image_chunk :: "bytes \<Rightarrow> chunk" where
  "image_chunk bs =
     [Some [\<lparr>part_inline_data = Some \<lparr>blob_data = bs, blob_mime_type = Some ''image/png''\<rparr>,
             part_text = None\<rparr>]]"

definition text_chunk :: "string \<Rightarrow> chunk" where
  "text_chunk t = [Some [\<lparr>part_inline_data = None, part_text = Some t\<rparr>]]"

definition stream_env :: "chunk list \<Rightarrow> env" where
  "stream_env chunks =
     \<lparr>json_loads = loads_short,
      generate_content = (\<lambda>req. Raises (ModelError ''quota exceeded'')),
      generate_content_stream = (\<lambda>req. (chunks, None)),
      api_key = Some ''key''\<rparr>"

text \<open>
  A reply to the lease request, and the store after three calls for project \<open>p1\<close>:
  processing the lease, calculating the deductions, processing the lease again.
\<close>

definition lease_reply :: string where
  \<open>lease_reply =
     ''{"tenant_name": "A. Tenant", "security_deposit": {"amount": 200, "currency": "USD"}}''\<close>

definition db_after_lease :: db where
  "db_after_lease =
     fst (snd (process_lease_endpoint (reply_env lease_reply) empty_db
                 ''p1'' ''d'' ''application/pdf''))"

definition db_after_deductions :: db where
  "db_after_deductions =
     fst (snd (calculate_deductions_endpoint (reply_env deduction_reply) db_after_lease
                 ''p1'' one_damage deposit_200 ''USD'' None))"

definition db_after_second_lease :: db where
  "db_after_second_lease =
     fst (snd (process_lease_endpoint (reply_env lease_reply) db_after_deductions
                 ''p1'' ''d'' ''application/pdf''))"

text \<open>
  A text wrapped in a fenced block: the three backticks, a tag (possibly empty), a line
  feed, the text, a line feed, the three backticks. And a record as text.
\<close>

definition fenced :: "string \<Rightarrow> string \<Rightarrow> string" where
  "fenced tag t = fence @ tag @ [CHR 0x0A] @ t @ [CHR 0x0A] @ fence"

definition record_text :: string where
  \<open>record_text = ''{"damage_found": false, "status": "no_new_damage"}''\<close>

definition record_decoded :: dict where
  "record_decoded =
     [(''damage_found'', JBool False), (''status'', JString ''no_new_damage'')]"

text \<open>
  A lease record that has a status of its own, and a record with three backticks inside
  a string.
\<close>

definition lease_record_text :: string where
  \<open>lease_record_text = ''{"status": "draft", "tenant_name": "A. Tenant"}''\<close>

definition backtick_record_text :: string where
  \<open>backtick_record_text = ''{"note": "a'' @ fence @ ''b"}''\<close>

text \<open>
  A floor plan whose inspection route has 1001 entries, the hall a thousand times and
  then the room \<open>late\<close>, and whose rooms are \<open>late\<close> and a room \<open>extra\<close> that is not
  on the route. And the room identifiers of a checklist, in order.
\<close>

definition long_route_plan :: dict where
  "long_route_plan =
     [(''rooms'', JArray
         [JObject [(''id'', JString ''late''), (''type'', JString ''kitchen'')],
          JObject [(''id'', JString ''extra''), (''type'', JString ''bathroom'')]]),
      (''inspection_route'', JArray (replicate 1000 (JString ''hall'') @ [JString ''late'']))]"

fun entry_room_id :: "json \<Rightarrow> json" where
  "entry_room_id (JObject d) = get_none d ''room_id''"
| "entry_room_id x = JNull"

definition checklist_room_ids :: "exn + dict \<Rightarrow> json list" where
  "checklist_room_ids r =
     (case r of
        Inl x \<Rightarrow> []
      | Inr d \<Rightarrow>
          (case dict_get d ''checklist'' of
             Some (JArray entries) \<Rightarrow> map entry_room_id entries
           | _ \<Rightarrow> []))"

text \<open>
  The rank the sort uses for a room whose key could be computed, and whether the room's
  identifier is a key of \<open>route_order\<close>.
\<close>

definition rank_of :: "(json \<times> nat) list \<Rightarrow> json \<Rightarrow> nat" where
  "rank_of route_order r = (case room_rank route_order r of Inl x \<Rightarrow> 0 | Inr k \<Rightarrow> k)"

definition listed :: "(json \<times> nat) list \<Rightarrow> json \<Rightarrow> bool" where
  "listed route_order r =
     (case r of
        JObject d \<Rightarrow> pyd_get route_order (get_default d ''id'' (JString [])) \<noteq> None
      | _ \<Rightarrow> False)"

section \<open>Properties\<close>

subsection \<open>Heuristic classification\<close>

lemma has_damage_iff:
  "has_damage raw_text \<longleftrightarrow>
     (\<exists>word \<in> set [''damage'', ''crack'', ''hole'', ''dent'', ''scratch'', ''stain'',
        ''peel'', ''mold'', ''water'', ''broken'', ''chip'', ''wear''].
        sublist word (lower raw_text))
     \<and> \<not> sublist ''no damage'' (lower raw_text)"
  unfolding has_damage_def damage_words_def list_ex_iff ..

text \<open>
  C4, as the code has it. When the reply of \<open>analyze_damage\<close> or
  \<open>analyze_damage_standalone\<close> does not decode, the result is the heuristic record, and
  its \<open>damage_found\<close> is true exactly when the lowercased raw text contains one of the
  twelve terms damage, crack, hole, dent, scratch, stain, peel, mold, water, broken, chip,
  wear and does not contain "no damage". The message is the raw text.
\<close>

theorem heuristic_classification:
  assumes "parse_reply e raw_text = DecodeError"
  shows "(generate_content e (AnalyzeDamagePrompt img refs names) = Reply (Some raw_text) \<longrightarrow>
        snd (analyze_damage e img refs names) = Inr (heuristic_result raw_text))
    \<and> (generate_content e (StandaloneDamagePrompt img) = Reply (Some raw_text) \<longrightarrow>
        snd (analyze_damage_standalone e img) = Inr (heuristic_result raw_text))
    \<and> dict_get (heuristic_result raw_text) ''damage_found'' =
        Some (JBool ((\<exists>word \<in> set [''damage'', ''crack'', ''hole'', ''dent'', ''scratch'',
                 ''stain'', ''peel'', ''mold'', ''water'', ''broken'', ''chip'', ''wear''].
                 sublist word (lower raw_text))
              \<and> \<not> sublist ''no damage'' (lower raw_text)))
    \<and> dict_get (heuristic_result raw_text) ''message'' = Some (JString raw_text)"
  using assms
  by (simp add: analyze_damage_def analyze_damage_standalone_def damage_result_def
      heuristic_result_def dict_get_def has_damage_iff)

text \<open>
  The theorem at the reply "No damage, only a crack": a term of the vocabulary occurs,
  the negating phrase occurs too, and \<open>damage_found\<close> is false.
\<close>

theorem heuristic_classification_witness:
  "generate_content (reply_env ''No damage, only a crack'')
       (AnalyzeDamagePrompt ''i'' [''r''] None)
      = Reply (Some ''No damage, only a crack'')
   \<and> generate_content (reply_env ''No damage, only a crack'') (StandaloneDamagePrompt ''i'')
      = Reply (Some ''No damage, only a crack'')
   \<and> parse_reply (reply_env ''No damage, only a crack'') ''No damage, only a crack''
      = DecodeError
   \<and> snd (analyze_damage (reply_env ''No damage, only a crack'') ''i'' [''r''] None)
      = Inr (heuristic_result ''No damage, only a crack'')
   \<and> snd (analyze_damage_standalone (reply_env ''No damage, only a crack'') ''i'')
      = Inr (heuristic_result ''No damage, only a crack'')
   \<and> dict_get (heuristic_result ''No damage, only a crack'') ''damage_found''
      = Some (JBool False)"
proof -
  let ?t = "''No damage, only a crack''"
  have g1: "generate_content (reply_env ?t) (AnalyzeDamagePrompt ''i'' [''r''] None)
      = Reply (Some ?t)"
    by (simp add: reply_env_def)
  have g2: "generate_content (reply_env ?t) (StandaloneDamagePrompt ''i'') = Reply (Some ?t)"
    by (simp add: reply_env_def)
  have p: "parse_reply (reply_env ?t) ?t = DecodeError"
    by code_simp
  have d: "dict_get (heuristic_result ?t) ''damage_found'' = Some (JBool False)"
    by code_simp
  from heuristic_classification [OF p, where img = "''i''" and refs = "[''r'']" and names = None]
    g1 g2 p d
  show ?thesis
    by blast
qed

text \<open>
  C4 as stated fails: the reply "The door shows damage." does not decode, contains none
  of the eleven terms the claim lists and not the phrase "no damage", and is classified
  as damage found.
\<close>

theorem heuristic_vocabulary_counterexample:
  "parse_reply (reply_env ''The door shows damage.'') ''The door shows damage.'' = DecodeError
   \<and> \<not> list_ex (\<lambda>word. sublist word (lower ''The door shows damage.'')) claimed_vocabulary
   \<and> \<not> sublist ''no damage'' (lower ''The door shows damage.'')
   \<and> analyze_damage (reply_env ''The door shows damage.'') ''i'' [''r''] None =
       ([AnalyzeDamagePrompt ''i'' [''r''] None],
        Inr [(''status'', JString ''damage_found''),
             (''damage_found'', JBool True),
             (''message'', JString ''The door shows damage.''),
             (''raw_analysis'', JString ''The door shows damage.'')])"
  by code_simp

subsection \<open>Repair quotes and deposit deductions\<close>

lemma dict_get_dict_set:
  "dict_get (dict_set d k v) k' = (if k' = k then Some v else dict_get d k')"
  by (induction d) (auto simp: dict_get_def)

text \<open>
  C1, as the code has it. For a list of damages that is not empty and a reply that
  decodes to a record, \<open>generate_repair_quote\<close> returns that record with its \<open>status\<close> set
  to \<open>quote_generated\<close> and nothing else changed: the line items and every field of the
  summary block are the ones the reply proposed.
\<close>

theorem repair_quote_is_the_reply:
  assumes "damages \<noteq> []"
    and "generate_content e (RepairQuotePrompt damages country currency deposit_amount)
           = Reply (Some raw_text)"
    and "parse_reply e raw_text = Decoded (JObject d)"
  shows "generate_repair_quote e damages country currency deposit_amount =
           ([RepairQuotePrompt damages country currency deposit_amount],
            Inr (dict_set d ''status'' (JString ''quote_generated'')))
    \<and> (\<forall>k. k \<noteq> ''status'' \<longrightarrow>
           dict_get (dict_set d ''status'' (JString ''quote_generated'')) k = dict_get d k)
    \<and> (\<forall>k. summary_field (dict_set d ''status'' (JString ''quote_generated'')) k
           = summary_field d k)"
  using assms
  by (simp add: generate_repair_quote_def dict_get_dict_set summary_field_def)

theorem repair_quote_is_the_reply_witness:
  "one_damage \<noteq> []
   \<and> generate_content (reply_env quote_reply) (RepairQuotePrompt one_damage ''France'' ''EUR'' None)
       = Reply (Some quote_reply)
   \<and> generate_repair_quote (reply_env quote_reply) one_damage ''France'' ''EUR'' None =
       ([RepairQuotePrompt one_damage ''France'' ''EUR'' None], Inr quote_returned)
   \<and> summary_field quote_returned ''grand_total'' = Some (JInt 5)"
proof -
  let ?d = "[(''materials'', JArray [JObject [(''name'', JString ''paint''), (''total'', JInt 60)]]),
      (''labor'', JArray [JObject [(''task'', JString ''painting''), (''total'', JInt 40)]]),
      (''summary'', JObject
         [(''materials_total'', JInt 1), (''labor_total'', JInt 2), (''subtotal'', JInt 3),
          (''contingency_10_percent'', JInt 4), (''grand_total'', JInt 5)])]"
  have n: "one_damage \<noteq> []"
    by (simp add: one_damage_def)
  have g: "generate_content (reply_env quote_reply)
             (RepairQuotePrompt one_damage ''France'' ''EUR'' None) = Reply (Some quote_reply)"
    by (simp add: reply_env_def)
  have p: "parse_reply (reply_env quote_reply) quote_reply = Decoded (JObject ?d)"
    by code_simp
  have r: "dict_set ?d ''status'' (JString ''quote_generated'') = quote_returned"
    by (simp add: quote_returned_def)
  have s: "summary_field quote_returned ''grand_total'' = Some (JInt 5)"
    by (simp add: summary_field_def quote_returned_def dict_get_def)
  from repair_quote_is_the_reply [OF n g p] have
    "generate_repair_quote (reply_env quote_reply) one_damage ''France'' ''EUR'' None =
       ([RepairQuotePrompt one_damage ''France'' ''EUR'' None],
        Inr (dict_set ?d ''status'' (JString ''quote_generated'')))"
    by (rule conjunct1)
  with n g r s show ?thesis
    by simp
qed

text \<open>
  C1 as stated fails. The line items of the reply add up to 60 for materials and 40 for
  labor, so the claim asks for the totals 60 and 40 and a grand total of
  \<open>(60 + 40) * 1.10 = 110\<close>; the quote returned carries the reply's own 1, 2 and 5.
\<close>

theorem repair_quote_counterexample:
  "generate_repair_quote (reply_env quote_reply) one_damage ''France'' ''EUR'' None =
     ([RepairQuotePrompt one_damage ''France'' ''EUR'' None], Inr quote_returned)
   \<and> sum_field ''total'' (dict_get quote_returned ''materials'') = 60
   \<and> sum_field ''total'' (dict_get quote_returned ''labor'') = 40
   \<and> summary_field quote_returned ''materials_total'' = Some (JInt 1)
   \<and> summary_field quote_returned ''labor_total'' = Some (JInt 2)
   \<and> summary_field quote_returned ''grand_total'' = Some (JInt 5)"
  by code_simp

text \<open>
  C2, as the code has it. For a reply that decodes to a record,
  \<open>calculate_deposit_deductions\<close> returns that record with its \<open>status\<close> set to
  \<open>success\<close> and nothing else changed: \<open>total_deductions\<close> and \<open>deposit_return\<close> are the
  values the reply stated.
\<close>

theorem deposit_deductions_is_the_reply:
  assumes "generate_content e (DeductionsPrompt damages deposit_amount currency repair_quote)
             = Reply (Some raw_text)"
    and "parse_reply e raw_text = Decoded (JObject d)"
  shows "calculate_deposit_deductions e damages deposit_amount currency repair_quote =
           ([DeductionsPrompt damages deposit_amount currency repair_quote],
            dict_set d ''status'' (JString ''success''))
    \<and> (\<forall>k. k \<noteq> ''status'' \<longrightarrow>
           dict_get (dict_set d ''status'' (JString ''success'')) k = dict_get d k)"
  using assms
  by (simp add: calculate_deposit_deductions_def dict_get_dict_set)

theorem deposit_deductions_is_the_reply_witness:
  "generate_content (reply_env deduction_reply)
       (DeductionsPrompt one_damage deposit_200 ''USD'' None) = Reply (Some deduction_reply)
   \<and> calculate_deposit_deductions (reply_env deduction_reply) one_damage deposit_200 ''USD'' None
       = ([DeductionsPrompt one_damage deposit_200 ''USD'' None], deduction_returned)
   \<and> dict_get deduction_returned ''deposit_return'' = Some (JInt (- 50))"
proof -
  let ?d = "[(''deductions'', JArray
         [JObject [(''item'', JString ''hole in wall''), (''deduction_amount'', JInt 300)]]),
      (''total_deductions'', JInt 100),
      (''deposit_return'', JInt (- 50))]"
  have g: "generate_content (reply_env deduction_reply)
             (DeductionsPrompt one_damage deposit_200 ''USD'' None) = Reply (Some deduction_reply)"
    by (simp add: reply_env_def)
  have p: "parse_reply (reply_env deduction_reply) deduction_reply = Decoded (JObject ?d)"
    by code_simp
  have r: "dict_set ?d ''status'' (JString ''success'') = deduction_returned"
    by (simp add: deduction_returned_def)
  have s: "dict_get deduction_returned ''deposit_return'' = Some (JInt (- 50))"
    by (simp add: deduction_returned_def dict_get_def)
  from deposit_deductions_is_the_reply [OF g p] have
    "calculate_deposit_deductions (reply_env deduction_reply) one_damage deposit_200 ''USD'' None
       = ([DeductionsPrompt one_damage deposit_200 ''USD'' None],
          dict_set ?d ''status'' (JString ''success''))"
    by (rule conjunct1)
  with g r s show ?thesis
    by simp
qed

text \<open>
  C2 as stated fails. With a deposit of 200 and one deduction of 300 the claim asks for
  \<open>total_deductions = 300\<close> and \<open>deposit_return = max(0, 200 - 300) = 0\<close>; the record
  returned carries the reply's own 100 and the negative -50.
\<close>

theorem deposit_deductions_counterexample:
  "calculate_deposit_deductions (reply_env deduction_reply) one_damage deposit_200 ''USD'' None
     = ([DeductionsPrompt one_damage deposit_200 ''USD'' None], deduction_returned)
   \<and> sum_field ''deduction_amount'' (dict_get deduction_returned ''deductions'') = 300
   \<and> dict_get deduction_returned ''total_deductions'' = Some (JInt 100)
   \<and> dict_get deduction_returned ''deposit_return'' = Some (JInt (- 50))
   \<and> (- 50 :: int) < 0"
  by code_simp

subsection \<open>An empty list of damages\<close>




subsection \<open>Replies that do not decode\<close>

text \<open>
  The clean-up itself never raises, so a reply fails to decode exactly when
  \<open>json.loads\<close> raises \<open>json.JSONDecodeError\<close> on the cleaned text.
\<close>

lemma split_fence_not_empty: "split_fence s \<noteq> []"
  by (induction s rule: split_fence.induct) (auto split: list.splits)

lemma clean_text_returns: "\<exists>c. clean_text t = Inr c"
proof (cases "prefix fence (strip t)")
  case False
  then show ?thesis by (simp add: clean_text_def)
next
  case True
  then obtain s where s: "strip t = fence @ s"
    by (auto simp: prefix_def)
  obtain seg segs where "split_fence s = seg # segs"
    using split_fence_not_empty [of s] by (cases "split_fence s") auto
  then have "split_fence (strip t) = [] # seg # segs"
    by (simp add: s fence_def)
  with True show ?thesis
    by (simp add: clean_text_def index1_def)
qed

lemma parse_reply_DecodeError:
  "parse_reply e raw_text = DecodeError \<longleftrightarrow>
     (\<exists>c. clean_text raw_text = Inr c \<and> json_loads e c = JSONDecodeError)"
  by (auto simp: parse_reply_def split: sum.splits loaded.splits)

text \<open>
  C8, as the code has it. When decoding the reply fails with \<open>json.JSONDecodeError\<close>,
  no operation raises, and each returns its own fallback record carrying the raw text: the heuristic record from the
  two damage analyses, a record with status \<open>partial\<close> from \<open>extract_lease_info\<close>, one
  with status \<open>quote_generated\<close> from \<open>generate_repair_quote\<close>, one with status
  \<open>success\<close> and no rooms from \<open>parse_floor_plan\<close>, and one with status \<open>error\<close> from
  \<open>calculate_deposit_deductions\<close>. \<open>extract_floor_plan_from_document\<close> returns status
  \<open>not_found\<close> and does not carry the raw text.
\<close>

theorem undecodable_reply_fallbacks:
  assumes "parse_reply e raw_text = DecodeError"
  shows
    "(generate_content e (AnalyzeDamagePrompt img refs names) = Reply (Some raw_text) \<longrightarrow>
        snd (analyze_damage e img refs names) = Inr (heuristic_result raw_text))
   \<and> (generate_content e (StandaloneDamagePrompt img) = Reply (Some raw_text) \<longrightarrow>
        snd (analyze_damage_standalone e img) = Inr (heuristic_result raw_text))
   \<and> (generate_content e (LeaseInfoPrompt doc mime) = Reply (Some raw_text) \<longrightarrow>
        snd (extract_lease_info e doc mime) =
          [(''status'', JString ''partial''),
           (''raw_extraction'', JString raw_text),
           (''message'', JString ''Could not parse structured data, raw extraction provided'')])
   \<and> (damages \<noteq> [] \<and>
      generate_content e (RepairQuotePrompt damages country currency deposit) =
        Reply (Some raw_text) \<longrightarrow>
        snd (generate_repair_quote e damages country currency deposit) =
          Inr [(''status'', JString ''quote_generated''),
               (''raw_quote'', JString raw_text),
               (''message'', JString ''Quote generated (see raw_quote)'')])
   \<and> (generate_content e (ParseFloorPlanPrompt img (resolve_mime img mime_opt)) =
        Reply (Some raw_text) \<longrightarrow>
        snd (parse_floor_plan e img mime_opt) =
          [(''status'', JString ''success''),
           (''raw_analysis'', JString raw_text),
           (''rooms'', JArray [])])
   \<and> (generate_content e (DeductionsPrompt damages amount currency repair_quote) =
        Reply (Some raw_text) \<longrightarrow>
        snd (calculate_deposit_deductions e damages amount currency repair_quote) =
          [(''status'', JString ''error''),
           (''message'', JString ''Could not calculate deductions''),
           (''raw_response'', JString raw_text)])
   \<and> (key_set (api_key e) \<and>
      generate_content e (IdentifyFloorPlanPrompt doc mime) = Reply (Some raw_text) \<longrightarrow>
        snd (extract_floor_plan_from_document e doc mime) =
          [(''status'', JString ''not_found''),
           (''message'', JString ''No floor plan found in document''),
           (''floor_plan_info'', JObject [(''has_floor_plan'', JBool False)])])"
  using assms
  by (simp add: analyze_damage_def analyze_damage_standalone_def damage_result_def
      extract_lease_info_def lease_partial_def generate_repair_quote_def raw_quote_result_def
      parse_floor_plan_def calculate_deposit_deductions_def deduction_unparsed_def
      extract_floor_plan_from_document_def floor_plan_not_found_def get_default_def
      dict_get_def)

theorem undecodable_reply_fallbacks_witness:
  "parse_reply (reply_env prose_reply) prose_reply = DecodeError
   \<and> snd (analyze_damage (reply_env prose_reply) ''i'' [''r''] None)
       = Inr (heuristic_result prose_reply)
   \<and> snd (extract_lease_info (reply_env prose_reply) ''d'' ''application/pdf'') =
       [(''status'', JString ''partial''),
        (''raw_extraction'', JString prose_reply),
        (''message'', JString ''Could not parse structured data, raw extraction provided'')]
   \<and> snd (calculate_deposit_deductions (reply_env prose_reply) one_damage deposit_200 ''USD'' None)
       = [(''status'', JString ''error''),
          (''message'', JString ''Could not calculate deductions''),
          (''raw_response'', JString prose_reply)]
   \<and> snd (extract_floor_plan_from_document (reply_env prose_reply) ''d'' ''application/pdf'') =
       [(''status'', JString ''not_found''),
        (''message'', JString ''No floor plan found in document''),
        (''floor_plan_info'', JObject [(''has_floor_plan'', JBool False)])]"
proof -
  have k: "key_set (api_key (reply_env prose_reply))"
    by (simp add: reply_env_def key_set_def)
  have p: "parse_reply (reply_env prose_reply) prose_reply = DecodeError"
    by code_simp
  have g: "\<And>req. generate_content (reply_env prose_reply) req = Reply (Some prose_reply)"
    by (simp add: reply_env_def)
  from undecodable_reply_fallbacks [OF p, where img = "''i''" and refs = "[''r'']"
      and names = None and doc = "''d''" and mime = "''application/pdf''"
      and damages = one_damage and country = "''France''" and currency = "''USD''"
      and deposit = None and mime_opt = None and amount = deposit_200
      and repair_quote = None] p g k
  show ?thesis
    by simp
qed

text \<open>
  C8 as stated fails: for a reply that does not decode,
  \<open>calculate_deposit_deductions\<close> returns a record whose status is \<open>error\<close>, and
  \<open>extract_floor_plan_from_document\<close> returns a record that does not carry the raw text.
\<close>

theorem undecodable_reply_counterexample:
  "parse_reply (reply_env prose_reply) prose_reply = DecodeError
   \<and> calculate_deposit_deductions (reply_env prose_reply) one_damage deposit_200 ''USD'' None
       = ([DeductionsPrompt one_damage deposit_200 ''USD'' None],
          [(''status'', JString ''error''),
           (''message'', JString ''Could not calculate deductions''),
           (''raw_response'', JString ''I could not work this out.'')])
   \<and> extract_floor_plan_from_document (reply_env prose_reply) ''d'' ''application/pdf''
       = ([IdentifyFloorPlanPrompt ''d'' ''application/pdf''],
          [(''status'', JString ''not_found''),
           (''message'', JString ''No floor plan found in document''),
           (''floor_plan_info'', JObject [(''has_floor_plan'', JBool False)])])"
  by code_simp

text \<open>
  When cleaning or decoding the reply raises anything other than
  \<open>json.JSONDecodeError\<close>, the handlers of the two damage analyses and of
  \<open>generate_repair_quote\<close> do not catch it and the operation raises; the other
  operations turn it into their error record, and \<open>extract_floor_plan_from_document\<close>,
  whose handler is bare, answers as for a decode error.
\<close>

lemma other_exception_outcomes:
  assumes "parse_reply e raw_text = Raised x"
  shows
    "(generate_content e (AnalyzeDamagePrompt img refs names) = Reply (Some raw_text) \<longrightarrow>
        snd (analyze_damage e img refs names) = Inl x)
   \<and> (generate_content e (StandaloneDamagePrompt img) = Reply (Some raw_text) \<longrightarrow>
        snd (analyze_damage_standalone e img) = Inl x)
   \<and> (damages \<noteq> [] \<and>
      generate_content e (RepairQuotePrompt damages country currency deposit) =
        Reply (Some raw_text) \<longrightarrow>
        snd (generate_repair_quote e damages country currency deposit) = Inl x)
   \<and> (generate_content e (LeaseInfoPrompt doc mime) = Reply (Some raw_text) \<longrightarrow>
        snd (extract_lease_info e doc mime) = lease_error x)
   \<and> (generate_content e (DeductionsPrompt damages amount currency repair_quote) =
        Reply (Some raw_text) \<longrightarrow>
        snd (calculate_deposit_deductions e damages amount currency repair_quote) =
          deduction_error x)
   \<and> (key_set (api_key e) \<and>
      generate_content e (IdentifyFloorPlanPrompt doc mime) = Reply (Some raw_text) \<longrightarrow>
        snd (extract_floor_plan_from_document e doc mime) =
          floor_plan_not_found (JObject [(''has_floor_plan'', JBool False)]))"
  using assms
  by (simp add: analyze_damage_def analyze_damage_standalone_def damage_result_def
      extract_lease_info_def generate_repair_quote_def calculate_deposit_deductions_def
      extract_floor_plan_from_document_def get_default_def dict_get_def)

subsection \<open>The status of a workflow\<close>

text \<open>
  C3, as the code has it. Whenever \<open>process_lease_document\<close> returns, its top-level
  status is \<open>success\<close> and it carries the results of both extractions as they are,
  whatever their own statuses. Whenever \<open>generate_3d_from_document_endpoint\<close> answers
  with a body: if the check found no floor plan, the body is the three fields status
  \<open>no_floor_plan\<close>, message and floor-plan information, with no entry for any later
  stage; otherwise its status is \<open>success\<close> and it carries the results of the parsing,
  layout, checklist and image stages as they are. No result is marked partial, failed or
  skipped.
\<close>

theorem workflow_status_is_fixed:
  "(\<forall>log r. process_lease_document e doc mime = (log, Inr r) \<longrightarrow>
      dict_get r ''status'' = Some (JString ''success'')
      \<and> dict_get r ''lease_info'' = Some (JObject (snd (extract_lease_info e doc mime)))
      \<and> dict_get r ''floor_plan'' =
          Some (JObject (snd (extract_floor_plan_from_document e doc mime))))
   \<and> (\<forall>r. snd (snd (generate_3d_from_document_endpoint e s project_id doc mime)) = Body r \<longrightarrow>
      (if truthy (get_none (snd (extract_floor_plan_from_document e doc mime))
                    ''floor_plan_found'')
       then dict_get r ''status'' = Some (JString ''success'')
          \<and> map fst r = [''status'', ''project_id'', ''floor_plan'', ''layout_3d'',
                           ''checklist'', ''image_3d'', ''floor_plan_info'']
          \<and> dict_get r ''floor_plan'' = Some (JObject (snd (parse_floor_plan e doc (Some mime))))
          \<and> (\<exists>layout_3d.
                generate_3d_layout (snd (parse_floor_plan e doc (Some mime))) = Inr layout_3d
                \<and> dict_get r ''layout_3d'' = Some (JObject layout_3d))
          \<and> (\<exists>checklist.
                create_inspection_checklist (snd (parse_floor_plan e doc (Some mime)))
                  = Inr checklist
                \<and> dict_get r ''checklist'' = Some (JObject checklist))
          \<and> dict_get r ''image_3d'' =
              Some (JObject (snd (generate_3d_floor_plan_image e doc
                (Some (JObject (snd (parse_floor_plan e doc (Some mime))))) (Some mime))))
       else r = [(''status'', JString ''no_floor_plan''),
                 (''message'', JString ''No floor plan found in the lease document''),
                 (''floor_plan_info'',
                    get_none (snd (extract_floor_plan_from_document e doc mime))
                      ''floor_plan_info'')]))"
proof (intro conjI allI impI)
  fix log r
  assume "process_lease_document e doc mime = (log, Inr r)"
  then have r: "dict_get r ''status'' = Some (JString ''success'')
      \<and> dict_get r ''lease_info'' = Some (JObject (snd (extract_lease_info e doc mime)))
      \<and> dict_get r ''floor_plan'' =
          Some (JObject (snd (extract_floor_plan_from_document e doc mime)))"
    by (auto simp: process_lease_document_def dict_get_def Let_def
        split: prod.splits sum.splits)
  from r show "dict_get r ''status'' = Some (JString ''success'')" by simp
  from r show "dict_get r ''lease_info'' = Some (JObject (snd (extract_lease_info e doc mime)))"
    by simp
  from r show "dict_get r ''floor_plan'' =
      Some (JObject (snd (extract_floor_plan_from_document e doc mime)))"
    by simp
next
  fix r
  assume "snd (snd (generate_3d_from_document_endpoint e s project_id doc mime)) = Body r"
  then show "if truthy (get_none (snd (extract_floor_plan_from_document e doc mime))
                    ''floor_plan_found'')
       then dict_get r ''status'' = Some (JString ''success'')
          \<and> map fst r = [''status'', ''project_id'', ''floor_plan'', ''layout_3d'',
                           ''checklist'', ''image_3d'', ''floor_plan_info'']
          \<and> dict_get r ''floor_plan'' = Some (JObject (snd (parse_floor_plan e doc (Some mime))))
          \<and> (\<exists>layout_3d.
                generate_3d_layout (snd (parse_floor_plan e doc (Some mime))) = Inr layout_3d
                \<and> dict_get r ''layout_3d'' = Some (JObject layout_3d))
          \<and> (\<exists>checklist.
                create_inspection_checklist (snd (parse_floor_plan e doc (Some mime)))
                  = Inr checklist
                \<and> dict_get r ''checklist'' = Some (JObject checklist))
          \<and> dict_get r ''image_3d'' =
              Some (JObject (snd (generate_3d_floor_plan_image e doc
                (Some (JObject (snd (parse_floor_plan e doc (Some mime))))) (Some mime))))
       else r = [(''status'', JString ''no_floor_plan''),
                 (''message'', JString ''No floor plan found in the lease document''),
                 (''floor_plan_info'',
                    get_none (snd (extract_floor_plan_from_document e doc mime))
                      ''floor_plan_info'')]"
    by (auto simp: generate_3d_from_document_endpoint_def dict_get_def Let_def http_500_def
        split: prod.splits sum.splits if_splits)
qed

text \<open>
  The theorem at \<^const>\<open>scenario_env\<close>: the lease extraction fails, the floor plan is
  identified, and both workflows report \<open>success\<close>.
\<close>

theorem workflow_status_is_fixed_witness:
  "process_lease_document scenario_env ''d'' ''application/pdf'' =
     ([LeaseInfoPrompt ''d'' ''application/pdf'', IdentifyFloorPlanPrompt ''d'' ''application/pdf''],
      Inr [(''status'', JString ''success''),
           (''lease_info'', JObject
              [(''status'', JString ''error''),
               (''message'', JString ''Document analysis failed: quota exceeded'')]),
           (''floor_plan'', JObject
              (floor_plan_success (JObject [(''has_floor_plan'', JBool True)])
                 ''d'' ''application/pdf'')),
           (''ready_for_inspection'', JBool True),
           (''deposit_amount'', JNull),
           (''deposit_currency'', JString ''USD'')])
   \<and> snd (extract_lease_info scenario_env ''d'' ''application/pdf'') =
       [(''status'', JString ''error''),
        (''message'', JString ''Document analysis failed: quota exceeded'')]
   \<and> truthy (get_none (snd (extract_floor_plan_from_document scenario_env ''d''
        ''application/pdf'')) ''floor_plan_found'')"
proof -
  let ?r = "[(''status'', JString ''success''),
           (''lease_info'', JObject
              [(''status'', JString ''error''),
               (''message'', JString ''Document analysis failed: quota exceeded'')]),
           (''floor_plan'', JObject
              (floor_plan_success (JObject [(''has_floor_plan'', JBool True)])
                 ''d'' ''application/pdf'')),
           (''ready_for_inspection'', JBool True),
           (''deposit_amount'', JNull),
           (''deposit_currency'', JString ''USD'')]"
  have p: "process_lease_document scenario_env ''d'' ''application/pdf'' =
     ([LeaseInfoPrompt ''d'' ''application/pdf'', IdentifyFloorPlanPrompt ''d'' ''application/pdf''],
      Inr ?r)"
    by code_simp
  have t: "truthy (get_none (snd (extract_floor_plan_from_document scenario_env ''d''
        ''application/pdf'')) ''floor_plan_found'')"
    by code_simp
  from workflow_status_is_fixed [of scenario_env "''d''" "''application/pdf''"] p
  have "dict_get ?r ''lease_info'' =
      Some (JObject (snd (extract_lease_info scenario_env ''d'' ''application/pdf'')))"
    by blast
  then have "snd (extract_lease_info scenario_env ''d'' ''application/pdf'') =
       [(''status'', JString ''error''),
        (''message'', JString ''Document analysis failed: quota exceeded'')]"
    by (simp add: dict_get_def)
  with p t show ?thesis
    by blast
qed

text \<open>
  C3 as stated fails. With a model that raises on every request both stages of
  \<open>process_lease_document\<close> end in error and the top-level status is \<open>success\<close>, not
  \<open>failed\<close>. In \<open>generate_3d_from_document_endpoint\<close>, when the identification succeeds
  and the parsing that follows fails, the stages after it are run, none is marked
  skipped, and the top-level status is \<open>success\<close>, not \<open>partial\<close>; when the
  identification fails, the later stages are left out of the result.
\<close>

theorem workflow_status_counterexample:
  "snd (process_lease_document failing_env ''d'' ''application/pdf'') =
     Inr [(''status'', JString ''success''),
          (''lease_info'', JObject
             [(''status'', JString ''error''),
              (''message'', JString ''Document analysis failed: quota exceeded'')]),
          (''floor_plan'', JObject
             [(''status'', JString ''error''),
              (''message'', JString ''Floor plan extraction failed: quota exceeded'')]),
          (''ready_for_inspection'', JBool False),
          (''deposit_amount'', JNull),
          (''deposit_currency'', JString ''USD'')]
   \<and> snd (snd (generate_3d_from_document_endpoint scenario_env empty_db ''p1'' ''d''
           ''application/pdf'')) =
     Body [(''status'', JString ''success''),
           (''project_id'', JString ''p1''),
           (''floor_plan'', JObject
              [(''status'', JString ''error''),
               (''message'', JString ''quota exceeded''),
               (''rooms'', JArray [])]),
           (''layout_3d'', JObject
              [(''type'', JString ''3d_floor_plan''),
               (''rooms'', JArray []),
               (''inspection_route'', JArray [])]),
           (''checklist'', JObject
              [(''status'', JString ''success''),
               (''total_rooms'', JInt 0),
               (''checklist'', JArray []),
               (''navigation'', JObject
                  [(''current_room'', JNull), (''next_room'', JNull),
                   (''completed_rooms'', JInt 0), (''total_rooms'', JInt 0)])]),
           (''image_3d'', JObject
              [(''status'', JString ''error''),
               (''message'', JString ''Failed to analyze document: quota exceeded'')]),
           (''floor_plan_info'', JObject [(''has_floor_plan'', JBool True)])]
   \<and> snd (snd (generate_3d_from_document_endpoint failing_env empty_db ''p1'' ''d''
           ''application/pdf'')) =
     Body [(''status'', JString ''no_floor_plan''),
           (''message'', JString ''No floor plan found in the lease document''),
           (''floor_plan_info'', JNull)]"
  by code_simp

subsection \<open>Streams of chunks\<close>

lemma b64encode_not_empty: "bs \<noteq> [] \<Longrightarrow> b64encode bs \<noteq> []"
  by (cases bs rule: b64encode.cases) (simp_all add: Let_def)

lemma consume_chunk_image:
  "image_of ch = Some b \<Longrightarrow>
     consume_chunk st ch =
       st\<lparr>generated_image_b64 := Some (b64encode (blob_data b)),
          result_mime_type := mime_or_png b\<rparr>"
  by (auto simp: consume_chunk_def consume_part_def image_of_def first_part_def
      mime_or_png_def Let_def split: list.splits option.splits if_splits)

lemma consume_chunk_text:
  "image_of ch = None \<Longrightarrow>
     consume_chunk st ch = st\<lparr>text_response := text_response st @ text_of ch\<rparr>"
  by (auto simp: consume_chunk_def consume_part_def image_of_def text_of_def first_part_def
      Let_def split: list.splits option.splits if_splits)

lemma image_of_data: "image_of ch = Some b \<Longrightarrow> blob_data b \<noteq> []"
  by (auto simp: image_of_def split: option.splits if_splits)

lemma foldl_consume_text:
  "text_response (foldl consume_chunk st chunks) = text_response st @ text_fragments chunks"
proof (induction chunks arbitrary: st)
  case Nil
  then show ?case by (simp add: text_fragments_def)
next
  case (Cons ch chunks)
  show ?case
  proof (cases "image_of ch")
    case None
    then show ?thesis
      using Cons [of "consume_chunk st ch"]
      by (simp add: consume_chunk_text text_fragments_def)
  next
    case (Some b)
    then show ?thesis
      using Cons [of "consume_chunk st ch"]
      by (simp add: consume_chunk_image text_fragments_def text_of_def split: option.splits)
  qed
qed

lemma foldl_consume_image:
  "generated_image_b64 (foldl consume_chunk st chunks) =
     (case binary_fragments chunks of
        [] \<Rightarrow> generated_image_b64 st
      | b # bs \<Rightarrow> Some (b64encode (blob_data (last (b # bs)))))
   \<and> result_mime_type (foldl consume_chunk st chunks) =
     (case binary_fragments chunks of
        [] \<Rightarrow> result_mime_type st
      | b # bs \<Rightarrow> mime_or_png (last (b # bs)))"
proof (induction chunks arbitrary: st)
  case Nil
  then show ?case by (simp add: binary_fragments_def)
next
  case (Cons ch chunks)
  show ?case
  proof (cases "image_of ch")
    case None
    then show ?thesis
      using Cons [of "consume_chunk st ch"]
      by (simp add: consume_chunk_text binary_fragments_def
          split: list.splits)
  next
    case (Some b)
    then show ?thesis
      using Cons [of "consume_chunk st ch"]
      by (simp add: consume_chunk_image binary_fragments_def
          split: list.splits)
  qed
qed

lemma binary_fragments_data: "b \<in> set (binary_fragments chunks) \<Longrightarrow> blob_data b \<noteq> []"
  by (auto simp: binary_fragments_def List.map_filter_def dest: image_of_data)

lemma stream_result_ended:
  "stream_result (chunks, None) what_failed generated no_image extra =
     (case binary_fragments chunks of
        [] \<Rightarrow>
          [(''status'', JString ''error''),
           (''message'', JString no_image),
           (''text_response'', JString (text_fragments chunks))]
      | b # bs \<Rightarrow>
          [(''status'', JString ''success''),
           (''image_base64'', JString (b64encode (blob_data (last (b # bs))))),
           (''mime_type'', JString (mime_or_png (last (b # bs)))),
           (''description'',
              JString (if text_fragments chunks = [] then generated
                       else text_fragments chunks))] @ extra)"
proof (cases "binary_fragments chunks")
  case Nil
  then show ?thesis
    using foldl_consume_image [of initial_state chunks]
      foldl_consume_text [of initial_state chunks]
    by (simp add: stream_result_def consume_def initial_state_def Let_def)
next
  case (Cons b bs)
  have "last (b # bs) \<in> set (binary_fragments chunks)"
    unfolding Cons by (rule last_in_set) simp
  then have "b64encode (blob_data (last (b # bs))) \<noteq> []"
    by (intro b64encode_not_empty binary_fragments_data)
  then show ?thesis
    using Cons foldl_consume_image [of initial_state chunks]
      foldl_consume_text [of initial_state chunks]
    by (simp add: stream_result_def consume_def initial_state_def Let_def)
qed

text \<open>
  C5, as the code has it. When the stream ends without raising, the image kept in the
  result of \<open>generate_3d_floor_plan_image\<close> is the last binary fragment that is not
  empty (each one replaces the one before), the text fragments are accumulated in order,
  and when there is no binary fragment the result is an error record carrying the
  accumulated text. Both call sites, for an image and for a PDF whose description
  succeeded, go through the same loop.
\<close>

theorem stream_keeps_last_image:
  "stream_result (chunks, None) what_failed generated no_image extra =
     (case binary_fragments chunks of
        [] \<Rightarrow>
          [(''status'', JString ''error''),
           (''message'', JString no_image),
           (''text_response'', JString (text_fragments chunks))]
      | b # bs \<Rightarrow>
          [(''status'', JString ''success''),
           (''image_base64'', JString (b64encode (blob_data (last (b # bs))))),
           (''mime_type'', JString (mime_or_png (last (b # bs)))),
           (''description'',
              JString (if text_fragments chunks = [] then generated
                       else text_fragments chunks))] @ extra)
   \<and> (key_set (api_key e) \<and> resolve_mime img mime \<noteq> ''application/pdf'' \<longrightarrow>
        snd (generate_3d_floor_plan_image e img floor_plan_data mime) =
          stream_result
            (generate_content_stream e
               (Render3DFromImage img
                  (if prefix ''image/'' (resolve_mime img mime) then resolve_mime img mime
                   else ''image/jpeg'')))
            ''Image generation failed: '' ''3D visualization generated''
            ''No image generated'' [])
   \<and> (key_set (api_key e) \<and> resolve_mime img mime = ''application/pdf''
      \<and> get_none (snd (describe_floor_plan_from_document e img ''application/pdf''))
            ''status'' = JString ''success'' \<longrightarrow>
        snd (generate_3d_floor_plan_image e img floor_plan_data mime) =
          stream_result
            (generate_content_stream e
               (Render3DFromDescription
                  (get_default (snd (describe_floor_plan_from_document e img ''application/pdf''))
                     ''description'' (JString []))))
            ''PDF 3D generation failed: '' ''3D visualization generated from PDF''
            ''No image generated from PDF description''
            [(''source'', JString ''pdf_description'')])"
proof (intro conjI impI)
  show "stream_result (chunks, None) what_failed generated no_image extra =
     (case binary_fragments chunks of
        [] \<Rightarrow>
          [(''status'', JString ''error''),
           (''message'', JString no_image),
           (''text_response'', JString (text_fragments chunks))]
      | b # bs \<Rightarrow>
          [(''status'', JString ''success''),
           (''image_base64'', JString (b64encode (blob_data (last (b # bs))))),
           (''mime_type'', JString (mime_or_png (last (b # bs)))),
           (''description'',
              JString (if text_fragments chunks = [] then generated
                       else text_fragments chunks))] @ extra)"
    by (rule stream_result_ended)
next
  assume "key_set (api_key e) \<and> resolve_mime img mime \<noteq> ''application/pdf''"
  then show "snd (generate_3d_floor_plan_image e img floor_plan_data mime) =
          stream_result
            (generate_content_stream e
               (Render3DFromImage img
                  (if prefix ''image/'' (resolve_mime img mime) then resolve_mime img mime
                   else ''image/jpeg'')))
            ''Image generation failed: '' ''3D visualization generated''
            ''No image generated'' []"
    by (simp add: generate_3d_floor_plan_image_def Let_def)
next
  assume "key_set (api_key e) \<and> resolve_mime img mime = ''application/pdf''
      \<and> get_none (snd (describe_floor_plan_from_document e img ''application/pdf''))
            ''status'' = JString ''success''"
  then show "snd (generate_3d_floor_plan_image e img floor_plan_data mime) =
          stream_result
            (generate_content_stream e
               (Render3DFromDescription
                  (get_default (snd (describe_floor_plan_from_document e img ''application/pdf''))
                     ''description'' (JString []))))
            ''PDF 3D generation failed: '' ''3D visualization generated from PDF''
            ''No image generated from PDF description''
            [(''source'', JString ''pdf_description'')]"
    by (auto simp: generate_3d_floor_plan_image_def Let_def split: prod.splits)
qed

text \<open>
  The theorem on a stream of two text fragments and no image: the result is the error
  record with the text in order.
\<close>

theorem stream_keeps_last_image_witness:
  "key_set (api_key (stream_env [text_chunk ''Sorry, '', text_chunk ''no image.'']))
   \<and> resolve_mime ''x'' (Some ''image/png'') \<noteq> ''application/pdf''
   \<and> snd (generate_3d_floor_plan_image
            (stream_env [text_chunk ''Sorry, '', text_chunk ''no image.''])
            ''x'' None (Some ''image/png'')) =
       [(''status'', JString ''error''),
        (''message'', JString ''No image generated''),
        (''text_response'', JString ''Sorry, no image.'')]"
proof -
  let ?chunks = "[text_chunk ''Sorry, '', text_chunk ''no image.'']"
  have k: "key_set (api_key (stream_env ?chunks))"
    by (simp add: stream_env_def key_set_def)
  have m: "resolve_mime ''x'' (Some ''image/png'') \<noteq> ''application/pdf''"
    by (simp add: resolve_mime_def)
  have s: "generate_content_stream (stream_env ?chunks) req = (?chunks, None)" for req
    by (simp add: stream_env_def)
  have b: "binary_fragments ?chunks = []"
    by (simp add: binary_fragments_def image_of_def first_part_def text_chunk_def)
  have t: "text_fragments ?chunks = ''Sorry, no image.''"
    by (simp add: text_fragments_def text_of_def image_of_def first_part_def text_chunk_def)
  note th = stream_keeps_last_image [of ?chunks "''Image generation failed: ''"
      "''3D visualization generated''" "''No image generated''" "[]" "stream_env ?chunks"
      "''x''" "Some ''image/png''" None]
  have c1: "stream_result (?chunks, None) ''Image generation failed: ''
      ''3D visualization generated'' ''No image generated'' [] =
       [(''status'', JString ''error''),
        (''message'', JString ''No image generated''),
        (''text_response'', JString ''Sorry, no image.'')]"
    using th b t by simp
  have c2: "snd (generate_3d_floor_plan_image (stream_env ?chunks) ''x'' None
      (Some ''image/png'')) =
      stream_result (?chunks, None) ''Image generation failed: ''
        ''3D visualization generated'' ''No image generated'' []"
    using th k m by (simp add: s)
  from c1 c2 k m show ?thesis
    by simp
qed

text \<open>
  C5 as stated fails. On a stream with two binary fragments, the bytes "A" and then the
  bytes "B", the result keeps the encoding of the second, \<open>Qg==\<close>, not of the first,
  \<open>QQ==\<close>.
\<close>

theorem stream_first_image_counterexample:
  "generate_3d_floor_plan_image
     (stream_env [text_chunk ''Here '', image_chunk ''A'', text_chunk ''you go'',
                  image_chunk ''B''])
     ''x'' None (Some ''image/png'') =
     ([Render3DFromImage ''x'' ''image/png''],
      [(''status'', JString ''success''),
       (''image_base64'', JString ''Qg==''),
       (''mime_type'', JString ''image/png''),
       (''description'', JString ''Here you go'')])
   \<and> b64encode ''A'' = ''QQ==''
   \<and> b64encode ''B'' = ''Qg==''"
  by code_simp

subsection \<open>Writes to the project store\<close>

lemma map_of_dict_set:
  "map_of (dict_set d k v) k' = (if k' = k then Some v else map_of d k')"
  by (induction d) auto

lemma stored_get_set_project_field:
  "stored_get (projects_db (set_project_field s p k v) q) k' =
     (if q = p \<and> k' = k \<and> projects_db s p \<noteq> None then v
      else stored_get (projects_db s q) k')"
  by (auto simp: set_project_field_def stored_get_def map_of_dict_set split: option.splits)

lemma set_project_field_frame:
  "floor_plans_db (set_project_field s p k v) = floor_plans_db s"
  "inspection_state_db (set_project_field s p k v) = inspection_state_db s"
  "q \<noteq> p \<Longrightarrow> projects_db (set_project_field s p k v) q = projects_db s q"
  "projects_db s p = None \<Longrightarrow> set_project_field s p k v = s"
  "(projects_db (set_project_field s p k v) q = None) = (projects_db s q = None)"
  by (auto simp: set_project_field_def split: option.splits)

text \<open>
  C6, as the code has it. The deduction write changes only the \<open>deposit_deductions\<close>
  field of an existing project, and the lease-information write only \<open>lease_info\<close>,
  \<open>deposit_amount\<close> and \<open>deposit_currency\<close>; both leave every other field, every other
  project and the two other dictionaries as they were, and store nothing for a project
  that does not exist. A lease-processing write that succeeds replaces the whole record
  of the project by its five fields, so a \<open>deposit_deductions\<close> field stored before is
  gone; it too leaves the other projects and dictionaries alone.
\<close>

theorem store_writes:
  "(let s' = fst (snd (calculate_deductions_endpoint e s p damages amount currency quote))
    in floor_plans_db s' = floor_plans_db s
       \<and> inspection_state_db s' = inspection_state_db s
       \<and> (\<forall>q. q \<noteq> p \<longrightarrow> projects_db s' q = projects_db s q)
       \<and> (\<forall>k. k \<noteq> ''deposit_deductions'' \<longrightarrow>
             stored_get (projects_db s' p) k = stored_get (projects_db s p) k)
       \<and> (projects_db s p = None \<longrightarrow> s' = s)
       \<and> (projects_db s p \<noteq> None \<longrightarrow>
             stored_get (projects_db s' p) ''deposit_deductions'' =
               SJson (JObject (snd (calculate_deposit_deductions e damages amount currency
                                      quote)))))
   \<and> (let s' = fst (snd (extract_lease_info_endpoint e s p doc mime))
      in floor_plans_db s' = floor_plans_db s
         \<and> inspection_state_db s' = inspection_state_db s
         \<and> (\<forall>q. q \<noteq> p \<longrightarrow> projects_db s' q = projects_db s q)
         \<and> (\<forall>k. k \<noteq> ''lease_info'' \<and> k \<noteq> ''deposit_amount'' \<and> k \<noteq> ''deposit_currency'' \<longrightarrow>
               stored_get (projects_db s' p) k = stored_get (projects_db s p) k)
         \<and> (projects_db s p = None \<longrightarrow> s' = s))
   \<and> (let out = snd (process_lease_endpoint e s p doc mime); s' = fst out
      in floor_plans_db s' = floor_plans_db s
         \<and> inspection_state_db s' = inspection_state_db s
         \<and> (\<forall>q. q \<noteq> p \<longrightarrow> projects_db s' q = projects_db s q)
         \<and> (\<forall>r. snd out = Body r \<longrightarrow>
               map fst (case projects_db s' p of None \<Rightarrow> [] | Some d \<Rightarrow> d) =
                 [''lease_info'', ''deposit_amount'', ''deposit_currency'',
                  ''document_bytes'', ''mime_type'']
               \<and> stored_get (projects_db s' p) ''deposit_deductions'' = SJson JNull))"
proof (intro conjI)
  show "let s' = fst (snd (calculate_deductions_endpoint e s p damages amount currency quote))
    in floor_plans_db s' = floor_plans_db s
       \<and> inspection_state_db s' = inspection_state_db s
       \<and> (\<forall>q. q \<noteq> p \<longrightarrow> projects_db s' q = projects_db s q)
       \<and> (\<forall>k. k \<noteq> ''deposit_deductions'' \<longrightarrow>
             stored_get (projects_db s' p) k = stored_get (projects_db s p) k)
       \<and> (projects_db s p = None \<longrightarrow> s' = s)
       \<and> (projects_db s p \<noteq> None \<longrightarrow>
             stored_get (projects_db s' p) ''deposit_deductions'' =
               SJson (JObject (snd (calculate_deposit_deductions e damages amount currency
                                      quote))))"
    by (simp add: calculate_deductions_endpoint_def Let_def split_beta
        stored_get_set_project_field set_project_field_frame)
next
  show "let s' = fst (snd (extract_lease_info_endpoint e s p doc mime))
      in floor_plans_db s' = floor_plans_db s
         \<and> inspection_state_db s' = inspection_state_db s
         \<and> (\<forall>q. q \<noteq> p \<longrightarrow> projects_db s' q = projects_db s q)
         \<and> (\<forall>k. k \<noteq> ''lease_info'' \<and> k \<noteq> ''deposit_amount'' \<and> k \<noteq> ''deposit_currency'' \<longrightarrow>
               stored_get (projects_db s' p) k = stored_get (projects_db s p) k)
         \<and> (projects_db s p = None \<longrightarrow> s' = s)"
    by (simp add: extract_lease_info_endpoint_def Let_def split_beta
        stored_get_set_project_field set_project_field_frame split: sum.splits)
next
  show "let out = snd (process_lease_endpoint e s p doc mime); s' = fst out
      in floor_plans_db s' = floor_plans_db s
         \<and> inspection_state_db s' = inspection_state_db s
         \<and> (\<forall>q. q \<noteq> p \<longrightarrow> projects_db s' q = projects_db s q)
         \<and> (\<forall>r. snd out = Body r \<longrightarrow>
               map fst (case projects_db s' p of None \<Rightarrow> [] | Some d \<Rightarrow> d) =
                 [''lease_info'', ''deposit_amount'', ''deposit_currency'',
                  ''document_bytes'', ''mime_type'']
               \<and> stored_get (projects_db s' p) ''deposit_deductions'' = SJson JNull)"
    by (simp add: process_lease_endpoint_def Let_def split_beta stored_get_def http_500_def
        split: sum.splits)
qed

text \<open>
  The theorem on the store that holds project \<open>p1\<close> after its lease was processed: the
  deduction write stores its result and leaves the lease information as it was.
\<close>

theorem store_writes_witness:
  "projects_db db_after_lease ''p1'' \<noteq> None
   \<and> stored_get (projects_db db_after_deductions ''p1'') ''deposit_deductions''
       = SJson (JObject deduction_returned)
   \<and> stored_get (projects_db db_after_deductions ''p1'') ''lease_info''
       = stored_get (projects_db db_after_lease ''p1'') ''lease_info''"
proof -
  have ex: "projects_db db_after_lease ''p1'' \<noteq> None"
    by code_simp
  have res: "snd (calculate_deposit_deductions (reply_env deduction_reply) one_damage
      deposit_200 ''USD'' None) = deduction_returned"
    by code_simp
  note th = store_writes [of "reply_env deduction_reply" db_after_lease "''p1''" one_damage
      deposit_200 "''USD''" None "''d''" "''application/pdf''", THEN conjunct1]
  from th ex res have a: "stored_get (projects_db db_after_deductions ''p1'')
      ''deposit_deductions'' = SJson (JObject deduction_returned)"
    by (simp add: Let_def db_after_deductions_def)
  from th have b: "stored_get (projects_db db_after_deductions ''p1'') ''lease_info''
       = stored_get (projects_db db_after_lease ''p1'') ''lease_info''"
    by (simp add: Let_def db_after_deductions_def)
  from ex a b show ?thesis
    by simp
qed

text \<open>
  C6 as stated fails. Project \<open>p1\<close> holds the deduction result after the deduction
  write; after the lease is processed again the field is gone. And a deduction write for
  a project that does not exist stores nothing.
\<close>

theorem store_overwrite_counterexample:
  "stored_get (projects_db db_after_deductions ''p1'') ''deposit_deductions''
     = SJson (JObject deduction_returned)
   \<and> stored_get (projects_db db_after_second_lease ''p1'') ''deposit_deductions''
     = SJson JNull
   \<and> stored_get (projects_db db_after_second_lease ''p1'') ''deposit_amount''
     = SJson (JInt 200)
   \<and> projects_db
        (fst (snd (calculate_deductions_endpoint (reply_env deduction_reply) empty_db
                     ''p1'' one_damage deposit_200 ''USD'' None))) ''p1'' = None"
  by code_simp

subsection \<open>Decoding a reply, plain or fenced\<close>

lemma strip_decomp:
  "t = takeWhile is_space t @ strip t @ rev (takeWhile is_space (rev (dropWhile is_space t)))"
proof -
  let ?u = "dropWhile is_space t"
  have "rev ?u = takeWhile is_space (rev ?u) @ dropWhile is_space (rev ?u)"
    by simp
  then have "?u = rev (dropWhile is_space (rev ?u)) @ rev (takeWhile is_space (rev ?u))"
    by (metis rev_append rev_rev_ident)
  then show ?thesis
    unfolding strip_def by (metis takeWhile_dropWhile_id)
qed

lemma strip_self:
  assumes "s \<noteq> []" "\<not> is_space (hd s)" "\<not> is_space (last s)"
  shows "strip s = s"
proof -
  have "dropWhile is_space s = s"
    using assms by (simp add: dropWhile_eq_self_iff)
  moreover have "dropWhile is_space (rev s) = rev s"
    using assms by (simp add: dropWhile_eq_self_iff hd_rev)
  ultimately show ?thesis
    by (simp add: strip_def)
qed

lemma strip_Cons_space: "is_space c \<Longrightarrow> strip (c # s) = strip s"
  by (simp add: strip_def)

lemma strip_snoc_space: "strip (s @ [c]) = strip s" if "is_space c"
proof (cases "\<forall>x\<in>set s. is_space x")
  case True
  then show ?thesis
    using that by (auto simp: strip_def dropWhile_append dest: set_dropWhileD)
next
  case False
  then show ?thesis
    using that by (auto simp: strip_def dropWhile_append dest: set_dropWhileD)
qed

lemma strip_strip: "strip (strip t) = strip t"
proof (cases "strip t = []")
  case True
  have "strip [] = []"
    by (simp add: strip_def)
  with True show ?thesis
    by simp
next
  case False
  let ?u = "dropWhile is_space t"
  have u: "?u \<noteq> []"
    using False by (auto simp: strip_def dest: set_dropWhileD)
  have l: "\<not> is_space (last (strip t))"
    using False hd_dropWhile [of is_space "rev ?u"]
    by (simp add: strip_def last_rev)
  have "?u = strip t @ rev (takeWhile is_space (rev ?u))"
    using strip_decomp [of t] takeWhile_dropWhile_id [of is_space t]
    by (metis same_append_eq)
  then have "hd (strip t) = hd ?u"
    using False by (metis hd_append2)
  then have h: "\<not> is_space (hd (strip t))"
    using u hd_dropWhile [of is_space t] by simp
  from False h l show ?thesis
    by (rule strip_self)
qed

lemma prefix_fence_Cons: "prefix fence (a # s) \<Longrightarrow> a = CHR 0x60"
  by (simp add: fence_def)

lemma sublist_fence_Cons:
  "a \<noteq> CHR 0x60 \<Longrightarrow> sublist fence (a # s) = sublist fence s"
  by (auto simp: sublist_Cons_right dest: prefix_fence_Cons)

lemma sublist_fence_snoc:
  "a \<noteq> CHR 0x60 \<Longrightarrow> sublist fence (s @ [a]) = sublist fence s"
proof -
  assume a: "a \<noteq> CHR 0x60"
  have "sublist (rev fence) (rev (s @ [a])) = sublist (rev fence) (rev s)"
    using a sublist_fence_Cons [of a "rev s"] by (simp add: fence_def)
  then show ?thesis
    by (simp only: sublist_rev)
qed

lemma split_fence_body:
  "\<not> sublist fence body \<Longrightarrow> body = [] \<or> last body \<noteq> CHR 0x60 \<Longrightarrow>
     split_fence (body @ fence @ rest) = body # split_fence rest"
proof (induction body)
  case Nil
  then show ?case by (simp add: fence_def)
next
  case (Cons a body)
  have nb: "\<not> sublist fence body"
    using Cons.prems(1) by (simp add: sublist_Cons_right)
  have lb: "body = [] \<or> last body \<noteq> CHR 0x60"
    using Cons.prems(2) by (auto split: if_splits)
  have ih: "split_fence (body @ fence @ rest) = body # split_fence rest"
    using Cons.IH nb lb by simp
  obtain b c s where bcs: "body @ fence @ rest = b # c # s"
    by (cases body; cases "tl body") (auto simp: fence_def)
  have not_all: "\<not> (a = CHR 0x60 \<and> b = CHR 0x60 \<and> c = CHR 0x60)"
  proof
    assume all: "a = CHR 0x60 \<and> b = CHR 0x60 \<and> c = CHR 0x60"
    show False
    proof (cases body)
      case Nil
      with Cons.prems(2) all show False by simp
    next
      case (Cons b' body')
      note outer = this
      show False
      proof (cases body')
        case Nil
        with outer bcs all \<open>a # body = [] \<or> last (a # body) \<noteq> CHR 0x60\<close> show False
          by simp
      next
        case (Cons c' body'')
        with outer bcs all have "prefix fence (a # body)"
          by (simp add: fence_def)
        with \<open>\<not> sublist fence (a # body)\<close> show False
          by (simp add: sublist_Cons_right)
      qed
    qed
  qed
  have "split_fence ((a # body) @ fence @ rest) = split_fence (a # b # c # s)"
    using bcs by simp
  also have "\<dots> = (case split_fence (b # c # s) of [] \<Rightarrow> [[a]] | seg # segs \<Rightarrow> (a # seg) # segs)"
    using not_all by auto
  also have "\<dots> = (a # body) # split_fence rest"
    using ih bcs by simp
  finally show ?case .
qed

lemma clean_text_unfenced:
  assumes "\<not> prefix fence (strip t)"
  shows "clean_text t = Inr (strip t)"
  using assms by (simp add: clean_text_def strip_strip)

lemma not_space_backtick: "\<not> is_space (CHR 0x60)"
  by (simp add: is_space_def)

lemma is_space_line_feed: "is_space (CHR 0x0A)"
  by (simp add: is_space_def)

lemma strip_fenced: "strip (fenced tag t) = fenced tag t"
  by (rule strip_self) (simp_all add: fenced_def fence_def not_space_backtick)

lemma strip_between_line_feeds: "strip (CHR 0x0A # t @ [CHR 0x0A]) = strip t"
proof -
  have "strip (CHR 0x0A # t @ [CHR 0x0A]) = strip (t @ [CHR 0x0A])"
    by (rule strip_Cons_space) (rule is_space_line_feed)
  also have "\<dots> = strip t"
    by (rule strip_snoc_space) (rule is_space_line_feed)
  finally show ?thesis .
qed

lemma clean_text_fenced:
  assumes "\<not> sublist fence t" and "tag = [] \<or> tag = ''json''"
  shows "clean_text (fenced tag t) = Inr (strip t)"
proof -
  let ?body = "tag @ CHR 0x0A # t @ [CHR 0x0A]"
  have inner: "\<not> sublist fence (CHR 0x0A # t @ [CHR 0x0A])"
    using assms(1) by (simp add: sublist_fence_Cons sublist_fence_snoc)
  have nb: "\<not> sublist fence ?body"
    using assms(2) inner by (auto simp: sublist_fence_Cons)
  have lb: "?body = [] \<or> last ?body \<noteq> CHR 0x60"
    by simp
  have "split_fence (?body @ fence @ []) = ?body # split_fence []"
    using nb lb by (rule split_fence_body)
  then have sp: "split_fence (fenced tag t) = [[], ?body, []]"
    by (simp add: fenced_def fence_def)
  have pf: "prefix fence (fenced tag t)"
    by (simp add: fenced_def)
  have body: "strip (if prefix ''json'' ?body then drop 4 ?body else ?body) = strip t"
    using assms(2) by (auto simp: strip_between_line_feeds)
  show ?thesis
    using pf sp body by (simp add: clean_text_def strip_fenced index1_def Let_def)
qed

text \<open>
  C10, as the code has it. Let \<open>t\<close> be a text that, stripped, decodes to a record \<open>d\<close>.
  If \<open>t\<close> does not start with three backticks it decodes to \<open>d\<close> as it is; if it
  contains no three backticks in a row, it also decodes to \<open>d\<close> in a fenced block with no
  tag and in a fenced block tagged \<open>json\<close>. From a reply that decodes to \<open>d\<close> the damage
  analyses return \<open>d\<close> with the raw text stored under \<open>raw_analysis\<close>,
  \<open>extract_lease_info\<close> returns \<open>d\<close> with \<open>status\<close> set to \<open>success\<close>, and every
  other field is the one of \<open>d\<close>.
\<close>

theorem fenced_round_trip:
  assumes "json_loads e (strip t) = Loaded (JObject d)"
  shows "(\<not> prefix fence (strip t) \<longrightarrow> parse_reply e t = Decoded (JObject d))
    \<and> (\<not> sublist fence t \<longrightarrow>
          parse_reply e (fenced [] t) = Decoded (JObject d)
          \<and> parse_reply e (fenced ''json'' t) = Decoded (JObject d))
    \<and> (\<forall>raw. parse_reply e raw = Decoded (JObject d) \<longrightarrow>
          damage_result e (Reply (Some raw)) = Inr (dict_set d ''raw_analysis'' (JString raw))
          \<and> (generate_content e (LeaseInfoPrompt doc mime) = Reply (Some raw) \<longrightarrow>
                snd (extract_lease_info e doc mime) = dict_set d ''status'' (JString ''success'')))
    \<and> (\<forall>k v k'. k' \<noteq> k \<longrightarrow> dict_get (dict_set d k v) k' = dict_get d k')"
  using assms
  by (simp add: parse_reply_def clean_text_unfenced clean_text_fenced damage_result_def
      extract_lease_info_def dict_get_dict_set)

theorem fenced_round_trip_witness:
  "json_loads (reply_env (fenced ''json'' record_text)) (strip record_text)
     = Loaded (JObject record_decoded)
   \<and> \<not> sublist fence record_text
   \<and> parse_reply (reply_env (fenced ''json'' record_text)) (fenced ''json'' record_text)
       = Decoded (JObject record_decoded)
   \<and> snd (analyze_damage (reply_env (fenced ''json'' record_text)) ''i'' [''r''] None) =
       Inr [(''damage_found'', JBool False),
            (''status'', JString ''no_new_damage''),
            (''raw_analysis'', JString (fenced ''json'' record_text))]"
proof -
  let ?e = "reply_env (fenced ''json'' record_text)"
  have l: "json_loads ?e (strip record_text) = Loaded (JObject record_decoded)"
    by code_simp
  have n: "\<not> sublist fence record_text"
    by code_simp
  note th = fenced_round_trip [OF l, of "''d''" "''application/pdf''"]
  from th n have p: "parse_reply ?e (fenced ''json'' record_text) = Decoded (JObject record_decoded)"
    by blast
  with th have "damage_result ?e (Reply (Some (fenced ''json'' record_text))) =
      Inr (dict_set record_decoded ''raw_analysis'' (JString (fenced ''json'' record_text)))"
    by blast
  then have "snd (analyze_damage ?e ''i'' [''r''] None) =
       Inr [(''damage_found'', JBool False),
            (''status'', JString ''no_new_damage''),
            (''raw_analysis'', JString (fenced ''json'' record_text))]"
    by (simp add: analyze_damage_def reply_env_def record_decoded_def)
  with l n p show ?thesis
    by blast
qed

text \<open>
  C10 as stated fails, in three ways. A lease record with a status of its own comes back
  from \<open>extract_lease_info\<close> with the status \<open>success\<close>. A record in a fenced block whose
  tag is \<open>javascript\<close> does not decode: the tag stays in front of the text. And a record
  with three backticks inside a string does not decode in a fenced block: the text is cut
  at them.
\<close>

theorem fenced_round_trip_counterexample:
  "decode_json lease_record_text =
     Some (JObject [(''status'', JString ''draft''), (''tenant_name'', JString ''A. Tenant'')])
   \<and> extract_lease_info (reply_env lease_record_text) ''d'' ''application/pdf'' =
       ([LeaseInfoPrompt ''d'' ''application/pdf''],
        [(''status'', JString ''success''), (''tenant_name'', JString ''A. Tenant'')])
   \<and> decode_json record_text = Some (JObject record_decoded)
   \<and> parse_reply (reply_env []) (fenced ''javascript'' record_text) = DecodeError
   \<and> decode_json backtick_record_text =
       Some (JObject [(''note'', JString (''a'' @ fence @ ''b''))])
   \<and> parse_reply (reply_env []) (fenced ''json'' backtick_record_text) = DecodeError"
  by code_simp

subsection \<open>The order of the inspection checklist\<close>

lemma pyd_set_twice:
  "py_eq k k \<Longrightarrow> pyd_set (pyd_set d k v) k v' = pyd_set d k v'"
  by (induction d) auto

lemma build_route_order_replicate:
  "check_hashable k = Inr k \<Longrightarrow> py_eq k k \<Longrightarrow>
     build_route_order d i (replicate (Suc n) k @ rest) =
       build_route_order (pyd_set d k (i + n)) (Suc (i + n)) rest"
proof (induction n arbitrary: d i)
  case 0
  then show ?case by simp
next
  case (Suc n)
  have "build_route_order d i (replicate (Suc (Suc n)) k @ rest) =
      build_route_order (pyd_set d k i) (Suc i) (replicate (Suc n) k @ rest)"
    using Suc.prems by simp
  also have "\<dots> = build_route_order (pyd_set (pyd_set d k i) k (Suc i + n)) (Suc (Suc i + n)) rest"
    using Suc.prems by (rule Suc.IH)
  finally show ?case
    using Suc.prems by (simp add: pyd_set_twice)
qed

lemma long_route_order:
  "build_route_order [] 0 (replicate 1000 (JString ''hall'') @ [JString ''late'']) =
     Inr [(JString ''hall'', 999), (JString ''late'', 1000)]"
proof -
  have "build_route_order [] 0 (replicate (Suc 999) (JString ''hall'') @ [JString ''late'']) =
      build_route_order (pyd_set [] (JString ''hall'') (0 + 999)) (Suc (0 + 999))
        [JString ''late'']"
    by (rule build_route_order_replicate) (simp_all add: py_eq_def)
  then show ?thesis
    by (simp add: py_eq_def)
qed

text \<open>
  C9 on a route of 1001 entries. The route gives the hall rank 999 (its last index) and
  the room \<open>late\<close> rank 1000; the room \<open>extra\<close>, which is not on the route, gets the
  fixed rank 999 and comes first in the checklist, before the listed room.
\<close>

theorem long_route_unlisted_first:
  "create_inspection_checklist long_route_plan =
     Inr [(''status'', JString ''success''),
          (''total_rooms'', JInt 2),
          (''checklist'', JArray
             [JObject
                [(''room_id'', JString ''extra''),
                 (''room_name'', JString []),
                 (''room_type'', JString ''bathroom''),
                 (''status'', JString ''pending''),
                 (''priority'', JString ''medium''),
                 (''inspection_items'', JArray
                    [check_item ''Walls'', check_item ''Ceiling'', check_item ''Floor'',
                     check_item ''Toilet'', check_item ''Sink'', check_item ''Shower'']),
                 (''tips'', JArray []),
                 (''damages_found'', JArray [])],
              JObject
                [(''room_id'', JString ''late''),
                 (''room_name'', JString []),
                 (''room_type'', JString ''kitchen''),
                 (''status'', JString ''pending''),
                 (''priority'', JString ''medium''),
                 (''inspection_items'', JArray
                    [check_item ''Walls'', check_item ''Ceiling'', check_item ''Floor'',
                     check_item ''Cabinets'', check_item ''Countertops'',
                     check_item ''Appliances'']),
                 (''tips'', JArray []),
                 (''damages_found'', JArray [])]]),
          (''navigation'', JObject
             [(''current_room'', JNull),
              (''next_room'', JString ''extra''),
              (''completed_rooms'', JInt 0),
              (''total_rooms'', JInt 2)])]
   \<and> checklist_room_ids (create_inspection_checklist long_route_plan)
       = [JString ''extra'', JString ''late'']
   \<and> build_route_order [] 0 (replicate 1000 (JString ''hall'') @ [JString ''late'']) =
       Inr [(JString ''hall'', 999), (JString ''late'', 1000)]
   \<and> room_rank [(JString ''hall'', 999), (JString ''late'', 1000)]
         (JObject [(''id'', JString ''late''), (''type'', JString ''kitchen'')]) = Inr 1000
   \<and> room_rank [(JString ''hall'', 999), (JString ''late'', 1000)]
         (JObject [(''id'', JString ''extra''), (''type'', JString ''bathroom'')]) = Inr 999"
  by (simp add: create_inspection_checklist_def long_route_plan_def get_default_def
      get_none_def dict_get_def and_then_def long_route_order sorted_rooms_def room_rank_def
      py_eq_def checklist_entry_def type_items_get_def type_items_def base_items_def
      next_room_def checklist_room_ids_def)

lemma and_then_Inr: "and_then r f = Inr y \<longleftrightarrow> (\<exists>v. r = Inr v \<and> f v = Inr y)"
  by (cases r) (simp_all add: and_then_def)

lemma map_exn_Inr:
  "map_exn f xs = Inr ys \<Longrightarrow> list_all2 (\<lambda>x y. f x = Inr y) xs ys"
  by (induction xs arbitrary: ys) (auto split: sum.splits)

lemma map_exn_Inr_mem:
  "map_exn f xs = Inr ys \<Longrightarrow> x \<in> set xs \<Longrightarrow> \<exists>y. f x = Inr y"
  by (induction xs arbitrary: ys) (auto split: sum.splits)

lemma insort_key_map:
  "insort_key f (g x) (map g ys) = map g (insort_key (\<lambda>y. f (g y)) x ys)"
  by (induction ys) auto

lemma sort_key_map: "sort_key f (map g xs) = map g (sort_key (\<lambda>y. f (g y)) xs)"
  by (induction xs) (auto simp: insort_key_map)

lemma sorted_rooms_sort_key:
  assumes "sorted_rooms ro rooms = Inr out"
  shows "out = sort_key (rank_of ro) rooms"
proof -
  from assms obtain ranks where r: "map_exn (room_rank ro) rooms = Inr ranks"
    and out: "out = map snd (sort_key fst (zip ranks rooms))"
    by (auto simp: sorted_rooms_def and_then_Inr)
  from map_exn_Inr [OF r] have "zip ranks rooms = map (\<lambda>x. (rank_of ro x, x)) rooms"
    by (auto simp: list_all2_conv_all_nth rank_of_def intro!: nth_equalityI)
  then show ?thesis
    by (simp add: out sort_key_map comp_def)
qed

text \<open>
  What holds of C9 for every input on which the sort succeeds: the rooms come in
  nondecreasing rank, they are the rooms given, and rooms of equal rank keep the order
  they had in the list.
\<close>

lemma sorted_rooms_stable:
  assumes "sorted_rooms ro rooms = Inr out"
  shows "sorted (map (rank_of ro) out)
    \<and> set out = set rooms \<and> length out = length rooms
    \<and> (\<forall>k. filter (\<lambda>r. rank_of ro r = k) out = filter (\<lambda>r. rank_of ro r = k) rooms)"
  using sorted_rooms_sort_key [OF assms] by (simp add: sort_key_stable)

lemma pyd_get_pyd_set:
  "pyd_get (pyd_set d k v) k' = Some j \<Longrightarrow> j = v \<or> pyd_get d k' = Some j"
  by (induction d) (auto split: if_splits)

lemma build_route_order_bound:
  "build_route_order d i route = Inr ro \<Longrightarrow> pyd_get ro k = Some j \<Longrightarrow>
     pyd_get d k = Some j \<or> (i \<le> j \<and> j < i + length route)"
proof (induction route arbitrary: d i)
  case Nil
  then show ?case by simp
next
  case (Cons x route)
  from Cons.prems(1) obtain h where h: "check_hashable x = Inr h"
    and b: "build_route_order (pyd_set d h i) (Suc i) route = Inr ro"
    by (auto split: sum.splits)
  from Cons.IH [OF b Cons.prems(2)]
  have "pyd_get (pyd_set d h i) k = Some j \<or> (Suc i \<le> j \<and> j < Suc i + length route)" .
  then show ?case
    using pyd_get_pyd_set [of d h i k j] by auto
qed

lemma rank_of_listed:
  assumes "build_route_order [] 0 route = Inr ro" and "room_rank ro r = Inr k"
  shows "if listed ro r then rank_of ro r < length route else rank_of ro r = 999"
proof -
  from assms(2) obtain d h where d: "r = JObject d"
    and h: "check_hashable (get_default d ''id'' (JString [])) = Inr h"
    by (cases r) (auto simp: room_rank_def and_then_Inr)
  from h have hh: "h = get_default d ''id'' (JString [])"
    by (cases "get_default d ''id'' (JString [])") auto
  show ?thesis
  proof (cases "pyd_get ro h")
    case None
    then show ?thesis
      using d h hh by (simp add: listed_def rank_of_def room_rank_def and_then_def)
  next
    case (Some j)
    with build_route_order_bound [OF assms(1) Some] have "j < length route"
      by simp
    with Some show ?thesis
      using d h hh by (simp add: listed_def rank_of_def room_rank_def and_then_def)
  qed
qed

text \<open>
  On a route of at most 999 entries no room that is not on the route comes before a room
  that is.
\<close>

lemma listed_before_unlisted:
  assumes "length route \<le> 999"
    and "build_route_order [] 0 route = Inr ro"
    and "sorted_rooms ro rooms = Inr out"
    and "i < j" and "j < length out"
    and "listed ro (out ! j)"
  shows "listed ro (out ! i)"
proof (rule ccontr)
  assume n: "\<not> listed ro (out ! i)"
  from assms(3) obtain ranks where r: "map_exn (room_rank ro) rooms = Inr ranks"
    by (auto simp: sorted_rooms_def and_then_Inr)
  have mem: "out ! i \<in> set rooms" "out ! j \<in> set rooms"
    using sorted_rooms_stable [OF assms(3)] assms(4,5) nth_mem [of i out] nth_mem [of j out]
    by auto
  from map_exn_Inr_mem [OF r] mem obtain ki kj where
    "room_rank ro (out ! i) = Inr ki" "room_rank ro (out ! j) = Inr kj"
    by blast
  with rank_of_listed [OF assms(2)] n assms(6)
  have "rank_of ro (out ! i) = 999" "rank_of ro (out ! j) < length route"
    by (metis)+
  moreover have "rank_of ro (out ! i) \<le> rank_of ro (out ! j)"
    using sorted_rooms_stable [OF assms(3)] assms(4,5)
    by (auto simp: sorted_iff_nth_mono dest!: spec [of _ i] spec [of _ j])
  ultimately show False
    using assms(1) by simp
qed

text \<open>
  The checklist is built from the sorted rooms, one entry per room, each entry under the
  room's identifier.
\<close>

lemma checklist_of_sorted_rooms:
  assumes "create_inspection_checklist floor_plan_data = Inr r"
  shows "\<exists>route ro rooms out checklist.
      iter_json (get_default floor_plan_data ''inspection_route'' (JArray [])) = Inr route
      \<and> build_route_order [] 0 route = Inr ro
      \<and> iter_json (get_default floor_plan_data ''rooms'' (JArray [])) = Inr rooms
      \<and> sorted_rooms ro rooms = Inr out
      \<and> map_exn checklist_entry out = Inr checklist
      \<and> dict_get r ''checklist'' = Some (JArray checklist)"
  using assms
  by (auto simp: create_inspection_checklist_def Let_def and_then_Inr dict_get_def)

lemma checklist_entry_room_id:
  assumes "checklist_entry room = Inr c"
  shows "\<exists>d. room = JObject d \<and> entry_room_id c = get_default d ''id'' (JString [])"
  using assms
  by (cases room)
    (auto simp: checklist_entry_def and_then_Inr Let_def get_none_def get_default_def
      dict_get_def)

end
